theory Spec2Isabelle
  imports Complex_Main
begin

section \<open>The CrashXP round engine and reward economy\<close>

text \<open>
  A shallow embedding of the game logic of \<^verbatim>\<open>src/app/page.tsx\<close> (the React component
  \<^verbatim>\<open>CrashXPGame\<close>). JavaScript numbers that hold counts of XP are integers (\<open>int\<close>);
  multipliers, weights and random draws are modelled as exact reals, so \<^verbatim>\<open>Math.floor\<close> is
  \<open>floor\<close> and no rounding of IEEE doubles is represented. Every call of
  \<^verbatim>\<open>Math.random()\<close> becomes an argument of the function that makes the call.
\<close>

subsection \<open>Crash point generator\<close>

text \<open>
  \<^verbatim>\<open>generateCrashPoint\<close>: the first draw \<open>random\<close> selects the branch, and each branch
  calls \<^verbatim>\<open>Math.random()\<close> once more for the offset \<open>u'\<close>.
\<close>

definition generateCrashPoint :: "real \<Rightarrow> real \<Rightarrow> real" where
  "generateCrashPoint random u' =
     (if random < 0.5 then 1.01 + (u' * 0.5)
      else if random < 0.8 then 1.5 + (u' * 1.5)
      else if random < 0.95 then 3.0 + (u' * 7.0)
      else 10.0 + (u' * 40.0))"

subsection \<open>Component state\<close>

text \<open>
  The component keeps its state in \<^verbatim>\<open>useState\<close> cells (\<open>game\<close>, \<open>user\<close>,
  \<open>creator\<close>, \<open>autoPlay\<close>, \<open>isAuthReady\<close>) and in references and closure variables
  of the climb timer. The fields that no game rule reads (display name, avatar, level, XP
  history chart, toasts, sounds) are left out.
\<close>

record game_state =
  isRunning :: bool
  isCrashed :: bool
  currentMultiplier :: real
  crashPoint :: "real option"
  userWagerXP :: int
  userCashOutMultiplier :: "real option"
  userWinningsXP :: int
  autoCashOut :: bool
  userCashedOut :: bool
  isExploding :: bool
  isWaiting :: bool
  lastRounds :: "real list"

record user_data =
  user_id :: string
  xp :: int
  totalWagered :: int
  totalWon :: int
  gamesPlayed :: int
  biggestWin :: int
  biggestMultiplier :: real
  winStreak :: int
  currentStreak :: int
  lastPlayDate :: "string option"
  dailyStreak :: int
  dailyGamesPlayed :: int
  unlockedCosmetics :: "string list"
  activeCosmetic :: string
  referralCode :: "string option"
  referralEarnings :: int
  referredUsers :: int

record creator_state =
  xpBoostMultiplier :: real

record autoplay_state =
  enabled :: bool
  wagerAmount :: int
  cashOutAt :: real
  stopOnWin :: bool
  stopOnLoss :: bool
  maxRounds :: int
  currentRound :: int
  isExecutingAutoRound :: bool

text \<open>
  Every render of the component creates its callbacks anew, and a callback keeps, as its
  closure, the values that the state cells had in the render that created it: \<open>render\<close>
  is that tuple of values. What the source reads as \<^verbatim>\<open>game.x\<close>, \<^verbatim>\<open>user.x\<close>,
  \<^verbatim>\<open>autoPlay.x\<close> or \<^verbatim>\<open>isAuthReady\<close> is read from the render of the callback; what it
  reads through the argument \<^verbatim>\<open>prev\<close> of an updater is read from the state as updated
  so far.

  A callback that a control of the page runs (\<^verbatim>\<open>placeWager\<close>, \<^verbatim>\<open>cashOut\<close>, the wager
  buttons, \<^verbatim>\<open>buyCosmetic\<close>) or that an effect runs on the change of its dependencies
  (\<^verbatim>\<open>updateDailyStreak\<close>) is the one of the current render, so its closure holds the
  state at the start of the call; it is modelled as a function of the state alone. A
  callback that runs later or that another callback has kept (the interval of the climb,
  \<^verbatim>\<open>crashGame\<close> and what it calls, the functions handed to \<^verbatim>\<open>setTimeout\<close>, the
  buttons of the second-chance dialogue) takes the render that created it as the argument
  \<open>c\<close>. The functions handed to \<^verbatim>\<open>setTimeout\<close> are recorded, with their render, in
  the field \<open>scheduled\<close> and run as events of their own.
\<close>

record render =
  rGame :: game_state
  rUser :: user_data
  rCreator :: creator_state
  rAutoPlay :: autoplay_state
  rAuthReady :: bool

datatype timer =
    CrashGameTimer render
  | OfferSecondChanceTimer render
  | ResetRoundTimer render
  | StreakBonusTimer int render
  | BoostExpiryTimer int

record app_state =
  game :: game_state
  user :: user_data
  creator :: creator_state
  autoPlay :: autoplay_state
  isAuthReady :: bool
  multiplierInterval :: bool
  intervalRender :: render
  lastMultiplier :: real
  climbRender :: render
  secondChanceModal :: "render option"
  scheduled :: "timer list"

text \<open>
  \<open>multiplierInterval\<close> says that \<^verbatim>\<open>multiplierIntervalRef.current\<close> holds a running
  interval, \<open>intervalRender\<close> is the render of the \<^verbatim>\<open>startMultiplierClimb\<close> that
  installed it and \<open>lastMultiplier\<close> the local variable of that call. \<open>climbRender\<close> is
  the render of the \<^verbatim>\<open>startMultiplierClimb\<close> that the current render holds:
  \<^verbatim>\<open>useCallback\<close> with the dependencies \<^verbatim>\<open>[game.crashPoint, updateMultiplierVisuals,
  setGame]\<close> (and \<^verbatim>\<open>updateMultiplierVisuals\<close> with \<^verbatim>\<open>[game.currentMultiplier]\<close>) keeps
  the function of the last render in which the crash point or the current multiplier
  changed. \<open>secondChanceModal\<close> is the open "Second Chance!" dialogue with the render of
  the \<^verbatim>\<open>offerSecondChance\<close> that built its buttons. The initial values are those of the
  \<^verbatim>\<open>useState\<close> calls, and the first render is the one of these values.
\<close>

definition initial_game :: game_state where
  "initial_game = \<lparr> isRunning = False, isCrashed = False, currentMultiplier = 1.00,
     crashPoint = None, userWagerXP = 50, userCashOutMultiplier = None, userWinningsXP = 0,
     autoCashOut = False, userCashedOut = False, isExploding = False, isWaiting = True,
     lastRounds = [] \<rparr>"

definition initial_user :: user_data where
  "initial_user = \<lparr> user_id = ''guest_user'', xp = 1000, totalWagered = 0, totalWon = 0,
     gamesPlayed = 0, biggestWin = 0, biggestMultiplier = 0, winStreak = 0, currentStreak = 0,
     lastPlayDate = None, dailyStreak = 0, dailyGamesPlayed = 0,
     unlockedCosmetics = [''default''], activeCosmetic = ''default'', referralCode = None,
     referralEarnings = 0, referredUsers = 0 \<rparr>"

definition initial_autoPlay :: autoplay_state where
  "initial_autoPlay = \<lparr> enabled = False, wagerAmount = 50, cashOutAt = 2.0, stopOnWin = False,
     stopOnLoss = False, maxRounds = 10, currentRound = 0, isExecutingAutoRound = False \<rparr>"

definition initial_render :: render where
  "initial_render = \<lparr> rGame = initial_game, rUser = initial_user,
     rCreator = \<lparr> xpBoostMultiplier = 1.0 \<rparr>, rAutoPlay = initial_autoPlay,
     rAuthReady = False \<rparr>"

definition initial_state :: app_state where
  "initial_state = \<lparr> game = initial_game, user = initial_user,
     creator = \<lparr> xpBoostMultiplier = 1.0 \<rparr>, autoPlay = initial_autoPlay,
     isAuthReady = False, multiplierInterval = False, intervalRender = initial_render,
     lastMultiplier = 1.00, climbRender = initial_render, secondChanceModal = None,
     scheduled = [] \<rparr>"

text \<open>The render of the state as it is: the closure of a callback that a control runs.\<close>

definition currentRender :: "app_state \<Rightarrow> render" where
  "currentRender s = \<lparr> rGame = game s, rUser = user s, rCreator = creator s,
     rAutoPlay = autoPlay s, rAuthReady = isAuthReady s \<rparr>"

text \<open>
  The guard \<^verbatim>\<open>!isAuthReady || user.id === 'guest_user'\<close> of the gated callbacks, on the
  current state and on the render of a callback.
\<close>

definition isGuest :: "app_state \<Rightarrow> bool" where
  "isGuest s = (if isAuthReady s then user_id (user s) = ''guest_user'' else True)"

definition guestRender :: "render \<Rightarrow> bool" where
  "guestRender c = (if rAuthReady c then user_id (rUser c) = ''guest_user'' else True)"

definition setTimeout :: "timer \<Rightarrow> app_state \<Rightarrow> app_state" where
  "setTimeout t s = s\<lparr>scheduled := scheduled s @ [t]\<rparr>"

subsection \<open>Round state machine\<close>

text \<open>\<^verbatim>\<open>resetRound\<close> reads \<^verbatim>\<open>autoPlay.wagerAmount\<close> from its render.\<close>

definition resetRound :: "render \<Rightarrow> app_state \<Rightarrow> app_state" where
  "resetRound c s = s\<lparr>game := (game s)\<lparr>
     isWaiting := True, isRunning := False, isCrashed := False, userCashedOut := False,
     userWagerXP := wagerAmount (rAutoPlay c), userCashOutMultiplier := None,
     userWinningsXP := 0, isExploding := False, currentMultiplier := 1.00\<rparr>\<rparr>"

text \<open>
  \<^verbatim>\<open>startMultiplierClimb\<close> resets its local \<open>lastMultiplier\<close> and installs the interval;
  the function that runs is the one that the render of the caller holds, so the interval's
  callback has the render \<open>climbRender\<close>. \<open>climbTick\<close> is one run of that callback,
  \<open>elapsed\<close> being \<^verbatim>\<open>Date.now() - startTime\<close> in milliseconds. A cleared interval does
  not fire. The callback reads \<^verbatim>\<open>game.crashPoint\<close> from its render, and the
  \<^verbatim>\<open>crashGame\<close> that it schedules is the one of its render. The test
  \<^verbatim>\<open>game.crashPoint && ...\<close> fails for \<^verbatim>\<open>null\<close> and for \<open>0\<close>.
\<close>

definition multiplierAt :: "int \<Rightarrow> real" where
  "multiplierAt elapsed = 1 + (real_of_int elapsed / 1000)\<^sup>2 * 0.1"

definition startMultiplierClimb :: "app_state \<Rightarrow> app_state" where
  "startMultiplierClimb s =
     s\<lparr>lastMultiplier := 1.00, multiplierInterval := True, intervalRender := climbRender s\<rparr>"

definition climbUpdate :: "real \<Rightarrow> app_state \<Rightarrow> app_state" where
  "climbUpdate newMultiplier s =
     (if \<bar>newMultiplier - lastMultiplier s\<bar> > 0.01
      then s\<lparr>game := (game s)\<lparr>currentMultiplier := newMultiplier\<rparr>,
             lastMultiplier := newMultiplier\<rparr>
      else s)"

definition climbTick :: "int \<Rightarrow> app_state \<Rightarrow> app_state" where
  "climbTick elapsed s =
     (if multiplierInterval s then
        (let newMultiplier = multiplierAt elapsed in
         case crashPoint (rGame (intervalRender s)) of
           None \<Rightarrow> climbUpdate newMultiplier s
         | Some cp \<Rightarrow>
             if cp \<noteq> 0 \<and> newMultiplier \<ge> cp
             then setTimeout (CrashGameTimer (intervalRender s))
                    (s\<lparr>game := (game s)\<lparr>currentMultiplier := cp\<rparr>,
                       multiplierInterval := False\<rparr>)
             else climbUpdate newMultiplier s)
      else s)"

text \<open>
  \<^verbatim>\<open>startRound\<close> queues the update that sets the new crash point and calls
  \<^verbatim>\<open>startMultiplierClimb()\<close>.
\<close>

definition startRound :: "real \<Rightarrow> real \<Rightarrow> app_state \<Rightarrow> app_state" where
  "startRound u u' s =
     startMultiplierClimb (s\<lparr>game := (game s)\<lparr>
       crashPoint := Some (generateCrashPoint u u'), currentMultiplier := 1.00,
       isExploding := False, isCrashed := False\<rparr>\<rparr>)"

text \<open>
  \<^verbatim>\<open>placeWager\<close> returns early, before any state update, in three cases; they are the
  values \<open>Inl\<close> of the result. The wager is the field \<^verbatim>\<open>game.userWagerXP\<close>.
\<close>

datatype reject = RoundInProgress | WagerTooLow | InsufficientXP
  | NotSignedIn | AlreadyOwned | NotEnoughXP

definition placeWager :: "real \<Rightarrow> real \<Rightarrow> app_state \<Rightarrow> reject + app_state" where
  "placeWager u u' s =
     (if isRunning (game s) then Inl RoundInProgress
      else let wager = userWagerXP (game s) in
        if wager \<le> 0 then Inl WagerTooLow
        else if wager > xp (user s) then Inl InsufficientXP
        else Inr (startRound u u'
          (s\<lparr>user := (user s)\<lparr>xp := xp (user s) - wager\<rparr>,
             game := (game s)\<lparr>userWagerXP := wager, isWaiting := False, isRunning := True,
               userCashedOut := False, isCrashed := False, isExploding := False,
               userCashOutMultiplier := None, userWinningsXP := 0\<rparr>\<rparr>)))"

definition setWager :: "int \<Rightarrow> app_state \<Rightarrow> app_state" where
  "setWager amount s =
     s\<lparr>game := (game s)\<lparr>userWagerXP := max 10 (\<lfloor>real_of_int amount / 10\<rfloor> * 10)\<rparr>\<rparr>"

definition increaseWager :: "app_state \<Rightarrow> app_state" where
  "increaseWager s =
     s\<lparr>game := (game s)\<lparr>userWagerXP := min (xp (user s)) (userWagerXP (game s) + 10)\<rparr>\<rparr>"

definition decreaseWager :: "app_state \<Rightarrow> app_state" where
  "decreaseWager s =
     s\<lparr>game := (game s)\<lparr>userWagerXP := max 10 (userWagerXP (game s) - 10)\<rparr>\<rparr>"

text \<open>
  The wager field of the auto-play settings stores \<^verbatim>\<open>parseInt(e.target.value)\<close> as it is
  in \<^verbatim>\<open>autoPlay.wagerAmount\<close>, and the effect on \<^verbatim>\<open>[autoPlay.wagerAmount]\<close> copies a
  changed amount to \<^verbatim>\<open>game.userWagerXP\<close>. (The wager field of the round applies the
  formula of \<^verbatim>\<open>setWager\<close>.)
\<close>

definition setAutoPlayWager :: "int \<Rightarrow> app_state \<Rightarrow> app_state" where
  "setAutoPlayWager n s =
     (if n = wagerAmount (autoPlay s) then s
      else s\<lparr>autoPlay := (autoPlay s)\<lparr>wagerAmount := n\<rparr>,
             game := (game s)\<lparr>userWagerXP := n\<rparr>\<rparr>)"

subsection \<open>Streaks, sharing and settlement\<close>

text \<open>
  A callback either returns or throws; in both cases the state updates it has issued so
  far remain. \<open>after\<close> is the state it leaves.
\<close>

datatype js_error = TypeError

datatype 'a outcome = Returns (after: 'a) | Throws js_error (after: 'a)

text \<open>
  \<^verbatim>\<open>createShareableAchievement(type, data)\<close>. After the guest check it builds the table of
  the three share texts, whose template literals are all evaluated at once: the text for
  \<^verbatim>\<open>big_win\<close> calls \<^verbatim>\<open>data.amount.toLocaleString()\<close> and the text for \<^verbatim>\<open>jackpot\<close> calls
  \<^verbatim>\<open>data.winnings.toLocaleString()\<close>, each a \<^verbatim>\<open>TypeError\<close> when the field is absent
  (\<^verbatim>\<open>data.multiplier\<close> and \<^verbatim>\<open>data.streak\<close> are only interpolated). Past the table it
  grants 50 XP when the text was copied (the promise of
  \<^verbatim>\<open>navigator.clipboard.writeText\<close> resolves) and in the fallback without a clipboard
  API; the environment's answer is the argument \<open>clip\<close>.
\<close>

record share_data =
  shareAmount :: "int option"
  shareStreak :: "int option"
  shareWinnings :: "int option"

datatype clipboard = CopySucceeds | CopyFails | NoClipboardApi

definition createShareableAchievement ::
    "string \<Rightarrow> share_data \<Rightarrow> clipboard \<Rightarrow> render \<Rightarrow> app_state \<Rightarrow> app_state outcome" where
  "createShareableAchievement type data clip c s =
     (if guestRender c then Returns s
      else if shareAmount data = None then Throws TypeError s
      else if shareWinnings data = None then Throws TypeError s
      else if type \<notin> set [''big_win'', ''win_streak'', ''jackpot''] then Returns s
      else case clip of
          CopySucceeds \<Rightarrow> Returns (s\<lparr>user := (user s)\<lparr>xp := xp (user s) + 50\<rparr>\<rparr>)
        | CopyFails \<Rightarrow> Returns s
        | NoClipboardApi \<Rightarrow> Returns (s\<lparr>user := (user s)\<lparr>xp := xp (user s) + 50\<rparr>\<rparr>))"

text \<open>
  \<^verbatim>\<open>updateWinStreak(won)\<close>: the guest check reads the render, the streaks are read from
  \<^verbatim>\<open>prev\<close>; the function it schedules on every fifth win in a row calls the
  \<^verbatim>\<open>triggerMysteryBox\<close> and the \<^verbatim>\<open>createShareableAchievement\<close> of the same render.
\<close>

definition updateWinStreak :: "bool \<Rightarrow> render \<Rightarrow> app_state \<Rightarrow> app_state" where
  "updateWinStreak won c s =
     (if guestRender c then s
      else if won then
        (let newCurrentStreak = currentStreak (user s) + 1;
             newWinStreak = (if newCurrentStreak > winStreak (user s) then newCurrentStreak
                             else winStreak (user s));
             s1 = (if newCurrentStreak > 0 \<and> newCurrentStreak mod 5 = 0
                   then setTimeout (StreakBonusTimer newCurrentStreak c) s else s)
         in s1\<lparr>user := (user s1)\<lparr>currentStreak := newCurrentStreak,
                                    winStreak := newWinStreak\<rparr>\<rparr>)
      else s\<lparr>user := (user s)\<lparr>currentStreak := 0\<rparr>\<rparr>)"

text \<open>
  \<^verbatim>\<open>crashGame\<close>; \<open>r\<close> is its draw \<^verbatim>\<open>Math.random() < 0.3\<close> for the second-chance
  offer. It clears the interval through the reference and updates the round and the
  statistics through \<^verbatim>\<open>prev\<close>, but reads \<^verbatim>\<open>game.userCashedOut\<close>, \<^verbatim>\<open>isAuthReady\<close>,
  \<^verbatim>\<open>user.id\<close> and \<^verbatim>\<open>game.userWagerXP\<close> from its render; \<^verbatim>\<open>updateWinStreak\<close>,
  \<^verbatim>\<open>offerSecondChance\<close> and the reset that it calls or schedules are those of its render.
  The near-miss analysis of the cashed-out branch only shows a toast.
\<close>

definition crashGame :: "real \<Rightarrow> render \<Rightarrow> app_state \<Rightarrow> app_state" where
  "crashGame r c s =
     (let s1 = s\<lparr>multiplierInterval := False,
                 game := (game s)\<lparr>isRunning := False, isCrashed := True, isExploding := True\<rparr>\<rparr>;
          s2 = (if \<not> userCashedOut (rGame c) then
                  (let s2a = (if rAuthReady c \<and> user_id (rUser c) \<noteq> ''guest_user''
                              then s1\<lparr>user := (user s1)\<lparr>
                                     totalWagered := totalWagered (user s1) + userWagerXP (rGame c),
                                     gamesPlayed := gamesPlayed (user s1) + 1,
                                     dailyGamesPlayed := dailyGamesPlayed (user s1) + 1\<rparr>\<rparr>
                              else s1);
                       s2b = updateWinStreak False c s2a
                   in if r < 0.3 then setTimeout (OfferSecondChanceTimer c) s2b
                      else setTimeout (ResetRoundTimer c) s2b)
                else setTimeout (ResetRoundTimer c) s1)
      in s2\<lparr>game := (game s2)\<lparr>
              lastRounds := take 10 (currentMultiplier (game s2) # lastRounds (game s2))\<rparr>\<rparr>)"

text \<open>
  \<^verbatim>\<open>cashOut\<close>, run by the button of the current render \<open>c\<close>. The multiplier and the
  wager are those of the state at the call; the statistics are updated from \<^verbatim>\<open>prev\<close>.
  Winnings above 1000 are announced with
  \<^verbatim>\<open>createShareableAchievement('big_win', { amount, multiplier })\<close>; when that call throws,
  the rest of \<^verbatim>\<open>cashOut\<close> (clearing the timer, ending the round, the win streak, the
  reset) does not run.
\<close>

definition cashOut :: "clipboard \<Rightarrow> app_state \<Rightarrow> app_state outcome" where
  "cashOut clip s =
     (if isRunning (game s) \<and> \<not> userCashedOut (game s) then
        (let c = currentRender s;
             multiplier = currentMultiplier (game s);
             winnings = \<lfloor>real_of_int (userWagerXP (game s)) * multiplier
                          * xpBoostMultiplier (creator s)\<rfloor>;
             s1 = s\<lparr>game := (game s)\<lparr>userCashedOut := True,
                      userCashOutMultiplier := Some multiplier, userWinningsXP := winnings\<rparr>,
                    user := (user s)\<lparr>
                      xp := xp (user s) + winnings,
                      totalWon := totalWon (user s) + winnings,
                      totalWagered := totalWagered (user s) + userWagerXP (game s),
                      gamesPlayed := gamesPlayed (user s) + 1,
                      dailyGamesPlayed := dailyGamesPlayed (user s) + 1,
                      biggestWin := (if winnings > biggestWin (user s) then winnings
                                     else biggestWin (user s)),
                      biggestMultiplier := (if multiplier > biggestMultiplier (user s)
                                            then multiplier else biggestMultiplier (user s))\<rparr>\<rparr>
         in case (if winnings > 1000
                  then createShareableAchievement ''big_win''
                         \<lparr>shareAmount = Some winnings, shareStreak = None, shareWinnings = None\<rparr>
                         clip c s1
                  else Returns s1) of
              Throws e s2 \<Rightarrow> Throws e s2
            | Returns s2 \<Rightarrow>
                (let s3 = s2\<lparr>multiplierInterval := False,
                            game := (game s2)\<lparr>isRunning := False, isCrashed := False\<rparr>\<rparr>;
                     s4 = updateWinStreak True c s3
                 in Returns (setTimeout (ResetRoundTimer c) s4)))
      else Returns s)"

text \<open>
  The callback of the reset timers: \<^verbatim>\<open>if (!autoPlay.enabled) resetRound()\<close>, with the
  \<^verbatim>\<open>autoPlay\<close> and the \<^verbatim>\<open>resetRound\<close> of the render that scheduled it.
\<close>

definition resetRoundTimer :: "render \<Rightarrow> app_state \<Rightarrow> app_state" where
  "resetRoundTimer c s = (if \<not> enabled (rAutoPlay c) then resetRound c s else s)"

subsection \<open>Second chance and cosmetics\<close>

definition closeModal :: "app_state \<Rightarrow> app_state" where
  "closeModal s = s\<lparr>secondChanceModal := None\<rparr>"

text \<open>
  \<^verbatim>\<open>offerSecondChance\<close> builds the dialogue; its buttons keep \<open>lostWager\<close>, which is
  \<^verbatim>\<open>game.userWagerXP\<close> of the render, the \<^verbatim>\<open>user.xp\<close> of the render, which the "Pay"
  button tests against 200, and the \<^verbatim>\<open>resetRound\<close> of the render. The payment itself
  and the statistics are updated from \<^verbatim>\<open>prev\<close>. Without an open dialogue there is no
  button.
\<close>

definition offerSecondChance :: "render \<Rightarrow> app_state \<Rightarrow> app_state" where
  "offerSecondChance c s =
     (if guestRender c then resetRound c s
      else s\<lparr>secondChanceModal := Some c\<rparr>)"

definition secondChancePay :: "app_state \<Rightarrow> app_state" where
  "secondChancePay s =
     (case secondChanceModal s of
        None \<Rightarrow> s
      | Some c \<Rightarrow>
          if xp (rUser c) \<ge> 200 then
            (let lostWager = userWagerXP (rGame c);
                 s1 = s\<lparr>user := (user s)\<lparr>xp := xp (user s) - 200\<rparr>\<rparr>;
                 s2 = s1\<lparr>user := (user s1)\<lparr>
                        totalWagered := totalWagered (user s1) - lostWager,
                        gamesPlayed := gamesPlayed (user s1) - 1,
                        dailyGamesPlayed := dailyGamesPlayed (user s1) - 1\<rparr>\<rparr>
             in closeModal (resetRound c s2))
          else closeModal (resetRound c s))"

definition secondChanceDecline :: "app_state \<Rightarrow> app_state" where
  "secondChanceDecline s =
     (case secondChanceModal s of None \<Rightarrow> s | Some c \<Rightarrow> closeModal (resetRound c s))"

definition buyCosmetic :: "string \<Rightarrow> int \<Rightarrow> app_state \<Rightarrow> reject + app_state" where
  "buyCosmetic ident price s =
     (if isGuest s then Inl NotSignedIn
      else if ident \<in> set (unlockedCosmetics (user s)) then Inl AlreadyOwned
      else if xp (user s) < price then Inl NotEnoughXP
      else Inr (s\<lparr>user := (user s)\<lparr>xp := xp (user s) - price,
                    unlockedCosmetics := unlockedCosmetics (user s) @ [ident],
                    activeCosmetic := ident\<rparr>\<rparr>))"

subsection \<open>Reward economy\<close>

datatype reward_type = XpReward | CosmeticReward | MultiplierBoostReward

datatype rarity = Common | Rare | Epic

text \<open>
  The interface \<^verbatim>\<open>Reward\<close>; its optional fields \<^verbatim>\<open>amount\<close>, \<^verbatim>\<open>id\<close>, \<^verbatim>\<open>value\<close>
  and \<^verbatim>\<open>duration\<close> are options.
\<close>

record reward =
  rewardType :: reward_type
  rewardRarity :: rarity
  message :: string
  amount :: "int option"
  cosmeticId :: "string option"
  boostValue :: "real option"
  duration :: "int option"
  weight :: real

definition rewards :: "reward list" where
  "rewards =
     [\<lparr>rewardType = XpReward, rewardRarity = Common, message = ''Bonus 500 XP!'',
        amount = Some 500, cosmeticId = None, boostValue = None, duration = None, weight = 5\<rparr>,
      \<lparr>rewardType = XpReward, rewardRarity = Rare, message = ''Big 1000 XP Boost!'',
        amount = Some 1000, cosmeticId = None, boostValue = None, duration = None, weight = 2\<rparr>,
      \<lparr>rewardType = CosmeticReward, rewardRarity = Epic, message = ''Golden Ring Cosmetic!'',
        amount = None, cosmeticId = Some ''golden_ring'', boostValue = None, duration = None,
        weight = 1\<rparr>,
      \<lparr>rewardType = MultiplierBoostReward, rewardRarity = Rare,
        message = ''1.1x XP for 10 min!'', amount = None, cosmeticId = None,
        boostValue = Some 1.1, duration = Some 600, weight = 2\<rparr>]"

text \<open>
  \<^verbatim>\<open>getWeightedRandomReward\<close>: \<open>walkRewards\<close> is its \<^verbatim>\<open>for\<close> loop, which returns
  from inside or falls through; \<open>sampleReward\<close> is the loop followed by the fallback
  \<^verbatim>\<open>rewardsList[0]\<close>, which is \<^verbatim>\<open>undefined\<close> (here \<open>None\<close>) for an empty list; \<open>u\<close>
  is the draw of \<^verbatim>\<open>Math.random()\<close>.
\<close>

fun walkRewards :: "real \<Rightarrow> reward list \<Rightarrow> reward option" where
  "walkRewards random [] = None"
| "walkRewards random (reward # rest) =
     (if random < weight reward then Some reward
      else walkRewards (random - weight reward) rest)"

definition sampleReward :: "real \<Rightarrow> reward list \<Rightarrow> reward option" where
  "sampleReward random rewardsList =
     (case walkRewards random rewardsList of
        Some reward \<Rightarrow> Some reward
      | None \<Rightarrow> (case rewardsList of [] \<Rightarrow> None | first # rest \<Rightarrow> Some first))"

definition totalWeight :: "reward list \<Rightarrow> real" where
  "totalWeight rewardsList = foldl (\<lambda>sum r. sum + weight r) 0 rewardsList"

definition getWeightedRandomReward :: "real \<Rightarrow> reward list \<Rightarrow> reward option" where
  "getWeightedRandomReward u rewardsList = sampleReward (u * totalWeight rewardsList) rewardsList"

text \<open>
  The sampling rule in the words of the specification: walk the list accumulating weight
  until the draw falls within an entry's span \<open>[acc, acc + weight)\<close>; the first such entry
  is the result, and the first entry of the list is the fallback.
\<close>

fun spanEntry :: "real \<Rightarrow> real \<Rightarrow> reward list \<Rightarrow> reward option" where
  "spanEntry acc r [] = None"
| "spanEntry acc r (x # xs) =
     (if acc \<le> r \<and> r < acc + weight x then Some x else spanEntry (acc + weight x) r xs)"

definition specSample :: "real \<Rightarrow> reward list \<Rightarrow> reward option" where
  "specSample r xs =
     (case spanEntry 0 r xs of
        Some x \<Rightarrow> Some x
      | None \<Rightarrow> (case xs of [] \<Rightarrow> None | first # rest \<Rightarrow> Some first))"

definition activateXPBoost :: "real \<Rightarrow> int \<Rightarrow> app_state \<Rightarrow> app_state" where
  "activateXPBoost multiplier dur s =
     setTimeout (BoostExpiryTimer dur)
       (s\<lparr>creator := (creator s)\<lparr>xpBoostMultiplier := multiplier\<rparr>\<rparr>)"

definition boostExpired :: "app_state \<Rightarrow> app_state" where
  "boostExpired s = s\<lparr>creator := (creator s)\<lparr>xpBoostMultiplier := 1.0\<rparr>\<rparr>"

text \<open>The callback of \<^verbatim>\<open>triggerMysteryBox\<close> that applies the drawn reward.\<close>

definition applyReward :: "reward \<Rightarrow> app_state \<Rightarrow> app_state" where
  "applyReward randomReward s =
     (case (rewardType randomReward, amount randomReward, cosmeticId randomReward,
            boostValue randomReward, duration randomReward) of
        (XpReward, Some xpAmount, _, _, _) \<Rightarrow>
          s\<lparr>user := (user s)\<lparr>xp := xp (user s) + xpAmount\<rparr>\<rparr>
      | (CosmeticReward, _, Some cosmetic, _, _) \<Rightarrow>
          if cosmetic \<notin> set (unlockedCosmetics (user s))
          then s\<lparr>user := (user s)\<lparr>
                 unlockedCosmetics := unlockedCosmetics (user s) @ [cosmetic],
                 activeCosmetic := cosmetic\<rparr>\<rparr>
          else s\<lparr>user := (user s)\<lparr>xp := xp (user s) + 200\<rparr>\<rparr>
      | (MultiplierBoostReward, _, _, Some multiplierValue, Some boostDuration) \<Rightarrow>
          activateXPBoost multiplierValue boostDuration s
      | _ \<Rightarrow> s)"

definition triggerMysteryBox :: "real \<Rightarrow> render \<Rightarrow> app_state \<Rightarrow> app_state" where
  "triggerMysteryBox u c s =
     (if guestRender c then s
      else case getWeightedRandomReward u rewards of
          None \<Rightarrow> s
        | Some randomReward \<Rightarrow> applyReward randomReward s)"

text \<open>
  The callback that \<^verbatim>\<open>updateWinStreak\<close> schedules on every fifth win in a row:
  \<^verbatim>\<open>triggerMysteryBox(); createShareableAchievement('win_streak', { streak })\<close>.
\<close>

definition streakBonusTimer ::
    "int \<Rightarrow> real \<Rightarrow> clipboard \<Rightarrow> render \<Rightarrow> app_state \<Rightarrow> app_state outcome" where
  "streakBonusTimer newCurrentStreak u clip c s =
     createShareableAchievement ''win_streak''
       \<lparr>shareAmount = None, shareStreak = Some newCurrentStreak, shareWinnings = None\<rparr>
       clip c (triggerMysteryBox u c s)"

text \<open>
  \<^verbatim>\<open>updateDailyStreak\<close>; \<open>today\<close> and \<open>yesterdayStr\<close> are the two date strings it computes
  from the clock. \<^verbatim>\<open>!lastPlay\<close> holds for \<^verbatim>\<open>null\<close> and for the empty string. The test
  for the bonus reads \<^verbatim>\<open>user.dailyStreak\<close> (the streak before the call); the bonus itself
  is computed from \<^verbatim>\<open>prev.dailyStreak\<close> (the streak as already updated).
\<close>

definition updateDailyStreak :: "string \<Rightarrow> string \<Rightarrow> app_state \<Rightarrow> app_state" where
  "updateDailyStreak today yesterdayStr s =
     (if isGuest s then s
      else let lastPlay = lastPlayDate (user s) in
        if lastPlay = None \<or> lastPlay = Some [] then
          s\<lparr>user := (user s)\<lparr>dailyStreak := 1, lastPlayDate := Some today\<rparr>\<rparr>
        else if lastPlay = Some today then s
        else
          (let s1 = (if lastPlay = Some yesterdayStr
                     then s\<lparr>user := (user s)\<lparr>dailyStreak := dailyStreak (user s) + 1\<rparr>\<rparr>
                     else s\<lparr>user := (user s)\<lparr>dailyStreak := 1\<rparr>\<rparr>);
               s2 = s1\<lparr>user := (user s1)\<lparr>lastPlayDate := Some today,
                                            dailyGamesPlayed := 0\<rparr>\<rparr>
           in if dailyStreak (user s) + 1 \<ge> 3 \<and> (dailyStreak (user s) + 1) mod 3 = 0
              then s2\<lparr>user := (user s2)\<lparr>
                     xp := xp (user s2) + 100 * (dailyStreak (user s2) + 1)\<rparr>\<rparr>
              else s2))"

definition trackReferral :: "string \<Rightarrow> string \<Rightarrow> real \<Rightarrow> app_state \<Rightarrow> app_state" where
  "trackReferral referrerCode newUserId r s =
     (if referralCode (user s) = Some referrerCode \<and> user_id (user s) \<noteq> newUserId then
        (if r > 0.5 then
           s\<lparr>user := (user s)\<lparr>referralEarnings := referralEarnings (user s) + 100,
                  xp := xp (user s) + 100,
                  referredUsers := referredUsers (user s) + 1\<rparr>\<rparr>
         else s)
      else s)"

text \<open>
  \<^verbatim>\<open>purchaseXPBoost\<close> with its table of boosts; \<open>paid\<close> says that the payment (or the
  simulated purchase) went through. A limited-time event of type \<^verbatim>\<open>2x_xp_boost\<close> sets the
  boost to its multiplier \<open>2.0\<close>; its end resets the boost like an expiry.
\<close>

definition boosts :: "string \<Rightarrow> (real \<times> int) option" where
  "boosts boostType =
     (if boostType = ''2x_weekend'' then Some (2, 48 * 3600)
      else if boostType = ''3x_hour'' then Some (3, 3600)
      else if boostType = ''5x_lucky'' then Some (5, 1800)
      else None)"

definition purchaseXPBoost :: "string \<Rightarrow> bool \<Rightarrow> app_state \<Rightarrow> app_state" where
  "purchaseXPBoost boostType paid s =
     (if isGuest s then s
      else case boosts boostType of
          None \<Rightarrow> s
        | Some (multiplier, dur) \<Rightarrow> if paid then activateXPBoost multiplier dur s else s)"

definition activateFOMOEvent :: "app_state \<Rightarrow> app_state" where
  "activateFOMOEvent s = s\<lparr>creator := (creator s)\<lparr>xpBoostMultiplier := 2.0\<rparr>\<rparr>"

subsection \<open>Events\<close>

text \<open>
  One event is one run of a callback: a click, a tick of the interval, a function handed
  to \<^verbatim>\<open>setTimeout\<close> that fires, or a refresh of the session. A function handed to
  \<^verbatim>\<open>setTimeout\<close> fires once, with the render it was scheduled with, and only if it was
  scheduled: \<open>takeTimer\<close> finds the earliest scheduled one of a kind and removes it.
  \<open>BoostExpires\<close> stands for the expiry function of \<^verbatim>\<open>activateXPBoost\<close> and for the end
  of a limited-time event, which both set the boost back to \<open>1.0\<close> and read nothing else.
\<close>

datatype event =
    PlaceWager real real
  | ClimbTick int
  | CrashGame real
  | CashOut clipboard
  | ResetRoundTimerFires
  | OfferSecondChance
  | SecondChancePay
  | SecondChanceDecline
  | SetWager int
  | IncreaseWager
  | DecreaseWager
  | SetAutoPlayWager int
  | BuyCosmetic string int
  | StreakBonusTimerFires real clipboard
  | PurchaseXPBoost string bool
  | FomoBoostStarts
  | BoostExpires
  | DailyStreak string string
  | TrackReferral string string real

fun takeTimer :: "(timer \<Rightarrow> 'a option) \<Rightarrow> timer list \<Rightarrow> ('a \<times> timer list) option" where
  "takeTimer kind [] = None"
| "takeTimer kind (t # ts) =
     (case kind t of
        Some x \<Rightarrow> Some (x, ts)
      | None \<Rightarrow> (case takeTimer kind ts of
                   None \<Rightarrow> None
                 | Some (x, rest) \<Rightarrow> Some (x, t # rest)))"

fun crashGameTimer :: "timer \<Rightarrow> render option" where
  "crashGameTimer (CrashGameTimer c) = Some c"
| "crashGameTimer t = None"

fun offerSecondChanceTimer :: "timer \<Rightarrow> render option" where
  "offerSecondChanceTimer (OfferSecondChanceTimer c) = Some c"
| "offerSecondChanceTimer t = None"

fun resetRoundTimerOf :: "timer \<Rightarrow> render option" where
  "resetRoundTimerOf (ResetRoundTimer c) = Some c"
| "resetRoundTimerOf t = None"

fun streakBonusTimerOf :: "timer \<Rightarrow> (int \<times> render) option" where
  "streakBonusTimerOf (StreakBonusTimer n c) = Some (n, c)"
| "streakBonusTimerOf t = None"

text \<open>\<open>handler\<close> runs the callback of an event; a rejected wager or purchase leaves the
  state as it is.\<close>

fun handler :: "event \<Rightarrow> app_state \<Rightarrow> app_state" where
  "handler (PlaceWager u u') s = (case placeWager u u' s of Inl e \<Rightarrow> s | Inr s' \<Rightarrow> s')"
| "handler (ClimbTick elapsed) s = climbTick elapsed s"
| "handler (CrashGame r) s =
     (case takeTimer crashGameTimer (scheduled s) of
        None \<Rightarrow> s
      | Some (c, rest) \<Rightarrow> crashGame r c (s\<lparr>scheduled := rest\<rparr>))"
| "handler (CashOut clip) s = after (cashOut clip s)"
| "handler ResetRoundTimerFires s =
     (case takeTimer resetRoundTimerOf (scheduled s) of
        None \<Rightarrow> s
      | Some (c, rest) \<Rightarrow> resetRoundTimer c (s\<lparr>scheduled := rest\<rparr>))"
| "handler OfferSecondChance s =
     (case takeTimer offerSecondChanceTimer (scheduled s) of
        None \<Rightarrow> s
      | Some (c, rest) \<Rightarrow> offerSecondChance c (s\<lparr>scheduled := rest\<rparr>))"
| "handler SecondChancePay s = secondChancePay s"
| "handler SecondChanceDecline s = secondChanceDecline s"
| "handler (SetWager n) s = setWager n s"
| "handler IncreaseWager s = increaseWager s"
| "handler DecreaseWager s = decreaseWager s"
| "handler (SetAutoPlayWager n) s = setAutoPlayWager n s"
| "handler (BuyCosmetic ident price) s =
     (case buyCosmetic ident price s of Inl e \<Rightarrow> s | Inr s' \<Rightarrow> s')"
| "handler (StreakBonusTimerFires u clip) s =
     (case takeTimer streakBonusTimerOf (scheduled s) of
        None \<Rightarrow> s
      | Some ((n, c), rest) \<Rightarrow> after (streakBonusTimer n u clip c (s\<lparr>scheduled := rest\<rparr>)))"
| "handler (PurchaseXPBoost boostType paid) s = purchaseXPBoost boostType paid s"
| "handler FomoBoostStarts s = activateFOMOEvent s"
| "handler BoostExpires s = boostExpired s"
| "handler (DailyStreak today yesterdayStr) s = updateDailyStreak today yesterdayStr s"
| "handler (TrackReferral referrerCode newUserId r) s =
     trackReferral referrerCode newUserId r s"

text \<open>
  After a callback has run, React renders the component with the updated state. The
  render creates a new \<^verbatim>\<open>startMultiplierClimb\<close> when one of its dependencies has
  changed, that is when the crash point or the current multiplier differs from the one of
  the render before; otherwise \<^verbatim>\<open>useCallback\<close> returns the function it has. \<open>commit s s'\<close>
  is the render of the state \<open>s'\<close> that a callback has left, \<open>s\<close> being the state before
  the callback, and \<open>step\<close> is an event with the render that follows it.
\<close>

definition commit :: "app_state \<Rightarrow> app_state \<Rightarrow> app_state" where
  "commit s s' =
     (if crashPoint (game s') = crashPoint (game s)
         \<and> currentMultiplier (game s') = currentMultiplier (game s)
      then s'
      else s'\<lparr>climbRender := currentRender s'\<rparr>)"

definition step :: "event \<Rightarrow> app_state \<Rightarrow> app_state" where
  "step e s = commit s (handler e s)"

text \<open>The draws of \<^verbatim>\<open>Math.random()\<close> lie in \<open>[0, 1)\<close>.\<close>

definition unit_draw :: "real \<Rightarrow> bool" where
  "unit_draw u = (0 \<le> u \<and> u < 1)"

fun run :: "event list \<Rightarrow> app_state \<Rightarrow> app_state" where
  "run [] s = s"
| "run (e # es) s = run es (step e s)"

subsection \<open>Example states and auxiliary notions\<close>

text \<open>The cumulative span of the entry at index \<open>i\<close> of a reward list.\<close>

definition cumWeight :: "reward list \<Rightarrow> nat \<Rightarrow> real" where
  "cumWeight xs i = sum_list (map weight (take i xs))"

definition inSpan :: "real \<Rightarrow> reward list \<Rightarrow> nat \<Rightarrow> bool" where
  "inSpan r xs i = (cumWeight xs i \<le> r \<and> r < cumWeight xs (Suc i))"

text \<open>
  A signed-in player (the sign-in arrives after the first render, so the
  \<^verbatim>\<open>startMultiplierClimb\<close> at hand is still the one of the first render), the first round
  of a guest just after a wager of 50 XP, and the same round two and four seconds later.
\<close>

definition member_state :: app_state where
  "member_state =
     initial_state\<lparr>isAuthReady := True, user := initial_user\<lparr>user_id := ''member_1''\<rparr>\<rparr>"

definition demo_start :: app_state where
  "demo_start = run [PlaceWager 0.6 0.5] initial_state"

definition demo_round :: app_state where
  "demo_round = run [PlaceWager 0.6 0.5, ClimbTick 1000, ClimbTick 2000] initial_state"

definition overrun_round :: app_state where
  "overrun_round =
     run [PlaceWager 0.6 0.5, ClimbTick 1000, ClimbTick 2000, ClimbTick 4000] initial_state"

text \<open>The multipliers stored after each of a sequence of ticks.\<close>

fun climbTrace :: "int list \<Rightarrow> app_state \<Rightarrow> real list" where
  "climbTrace [] s = []"
| "climbTrace (t # ts) s =
     currentMultiplier (game (climbTick t s)) # climbTrace ts (climbTick t s)"

text \<open>
  \<open>tracked\<close>: the \<^verbatim>\<open>startMultiplierClimb\<close> at hand was created in a render with the
  crash point and the multiplier that the state has now. \<open>second_round\<close> is a guest's
  session after a first round cashed out at \<open>1.4\<close> and reset, with a second wager of 50 XP
  placed; \<open>second_chance\<close> is a signed-in player's session after such a first round and a
  second round with a wager of 1000 XP that has crashed and led to the second-chance
  dialogue.
\<close>

definition tracked :: "app_state \<Rightarrow> bool" where
  "tracked s =
     (crashPoint (rGame (climbRender s)) = crashPoint (game s)
      \<and> currentMultiplier (rGame (climbRender s)) = currentMultiplier (game s))"

definition second_round :: app_state where
  "second_round =
     run [CashOut CopySucceeds, ResetRoundTimerFires, PlaceWager 0.9 0.5] demo_round"

definition second_chance :: app_state where
  "second_chance =
     run [PlaceWager 0.6 0.5, ClimbTick 1000, ClimbTick 2000, CashOut CopySucceeds,
          ResetRoundTimerFires, SetWager 1000, PlaceWager 0.9 0.5, ClimbTick 1000,
          ClimbTick 4000, CrashGame 0.1, OfferSecondChance] member_state"

text \<open>
  A guest's session: the state and every render held by the climb, by a scheduled function
  or by the dialogue are those of a guest.
\<close>

definition guestTimer :: "timer \<Rightarrow> bool" where
  "guestTimer t =
     (case t of
        CrashGameTimer c \<Rightarrow> guestRender c
      | OfferSecondChanceTimer c \<Rightarrow> guestRender c
      | ResetRoundTimer c \<Rightarrow> guestRender c
      | StreakBonusTimer n c \<Rightarrow> guestRender c
      | BoostExpiryTimer d \<Rightarrow> True)"

definition guest_session :: "app_state \<Rightarrow> bool" where
  "guest_session s =
     (isGuest s \<and> guestRender (climbRender s) \<and> guestRender (intervalRender s)
      \<and> list_all guestTimer (scheduled s)
      \<and> (case secondChanceModal s of None \<Rightarrow> True | Some c \<Rightarrow> guestRender c))"

section \<open>Verified properties\<close>

subsection \<open>What each callback leaves unchanged\<close>

lemma setTimeout_frame [simp]:
  "game (setTimeout t s) = game s"
  "user (setTimeout t s) = user s"
  "creator (setTimeout t s) = creator s"
  "autoPlay (setTimeout t s) = autoPlay s"
  "isAuthReady (setTimeout t s) = isAuthReady s"
  "multiplierInterval (setTimeout t s) = multiplierInterval s"
  "intervalRender (setTimeout t s) = intervalRender s"
  "lastMultiplier (setTimeout t s) = lastMultiplier s"
  "climbRender (setTimeout t s) = climbRender s"
  by (simp_all add: setTimeout_def)

lemma guestRender_currentRender [simp]: "guestRender (currentRender s) = isGuest s"
  by (simp add: guestRender_def isGuest_def currentRender_def)

lemma updateWinStreak_frame [simp]:
  "game (updateWinStreak w c s) = game s"
  "multiplierInterval (updateWinStreak w c s) = multiplierInterval s"
  "intervalRender (updateWinStreak w c s) = intervalRender s"
  "climbRender (updateWinStreak w c s) = climbRender s"
  "creator (updateWinStreak w c s) = creator s"
  "autoPlay (updateWinStreak w c s) = autoPlay s"
  "isAuthReady (updateWinStreak w c s) = isAuthReady s"
  "xp (user (updateWinStreak w c s)) = xp (user s)"
  "totalWagered (user (updateWinStreak w c s)) = totalWagered (user s)"
  "totalWon (user (updateWinStreak w c s)) = totalWon (user s)"
  "gamesPlayed (user (updateWinStreak w c s)) = gamesPlayed (user s)"
  "dailyStreak (user (updateWinStreak w c s)) = dailyStreak (user s)"
  "user_id (user (updateWinStreak w c s)) = user_id (user s)"
  by (simp_all add: updateWinStreak_def Let_def)

lemma resetRound_frame [simp]:
  "user (resetRound c s) = user s"
  "climbRender (resetRound c s) = climbRender s"
  "crashPoint (game (resetRound c s)) = crashPoint (game s)"
  "lastRounds (game (resetRound c s)) = lastRounds (game s)"
  by (simp_all add: resetRound_def)

text \<open>
  Neither caller of \<^verbatim>\<open>createShareableAchievement\<close> passes both \<^verbatim>\<open>amount\<close> and
  \<^verbatim>\<open>winnings\<close>: a guest's call returns at once, any other call throws, and the state stays
  as it is.
\<close>

lemma createShareableAchievement_callers:
  assumes "shareAmount d = None \<or> shareWinnings d = None"
  shows "createShareableAchievement ty d clip c s =
           (if guestRender c then Returns s else Throws TypeError s)"
  using assms by (auto simp: createShareableAchievement_def)

lemma streakBonusTimer_after [simp]:
  "after (streakBonusTimer n u clip c s) = triggerMysteryBox u c s"
  by (simp add: streakBonusTimer_def createShareableAchievement_callers)

text \<open>The state that \<^verbatim>\<open>cashOut\<close> leaves.\<close>

lemma cashOut_idle:
  "\<not> isRunning (game s) \<Longrightarrow> cashOut clip s = Returns s"
  "userCashedOut (game s) \<Longrightarrow> cashOut clip s = Returns s"
  by (simp_all add: cashOut_def)

lemma cashOut_after:
  assumes "isRunning (game s)" "\<not> userCashedOut (game s)"
  defines "w \<equiv> \<lfloor>real_of_int (userWagerXP (game s)) * currentMultiplier (game s)
                  * xpBoostMultiplier (creator s)\<rfloor>"
  defines "s1 \<equiv> s\<lparr>game := (game s)\<lparr>userCashedOut := True,
                      userCashOutMultiplier := Some (currentMultiplier (game s)),
                      userWinningsXP := w\<rparr>,
                    user := (user s)\<lparr>
                      xp := xp (user s) + w,
                      totalWon := totalWon (user s) + w,
                      totalWagered := totalWagered (user s) + userWagerXP (game s),
                      gamesPlayed := gamesPlayed (user s) + 1,
                      dailyGamesPlayed := dailyGamesPlayed (user s) + 1,
                      biggestWin := (if w > biggestWin (user s) then w else biggestWin (user s)),
                      biggestMultiplier :=
                        (if currentMultiplier (game s) > biggestMultiplier (user s)
                         then currentMultiplier (game s) else biggestMultiplier (user s))\<rparr>\<rparr>"
  shows "cashOut clip s =
           (if w > 1000 \<and> \<not> isGuest s then Throws TypeError s1
            else Returns (setTimeout (ResetRoundTimer (currentRender s))
                   (updateWinStreak True (currentRender s)
                     (s1\<lparr>multiplierInterval := False,
                         game := (game s1)\<lparr>isRunning := False, isCrashed := False\<rparr>\<rparr>))))"
proof -
  have c: "createShareableAchievement ''big_win''
             \<lparr>shareAmount = Some w, shareStreak = None, shareWinnings = None\<rparr> clip
             (currentRender s) s1
           = (if isGuest s then Returns s1 else Throws TypeError s1)"
    by (simp add: createShareableAchievement_callers)
  show ?thesis
    unfolding cashOut_def Let_def w_def [symmetric] s1_def [symmetric]
    using assms(1,2) c by simp
qed

lemma cashOut_game:
  "game (after (cashOut clip s)) =
     (if isRunning (game s) \<and> \<not> userCashedOut (game s) then
        (let w = \<lfloor>real_of_int (userWagerXP (game s)) * currentMultiplier (game s)
                   * xpBoostMultiplier (creator s)\<rfloor>;
             g = (game s)\<lparr>userCashedOut := True,
                   userCashOutMultiplier := Some (currentMultiplier (game s)),
                   userWinningsXP := w\<rparr>
         in if w > 1000 \<and> \<not> isGuest s then g
            else g\<lparr>isRunning := False, isCrashed := False\<rparr>)
      else game s)"
proof (cases "isRunning (game s) \<and> \<not> userCashedOut (game s)")
  case True
  then have r: "isRunning (game s)" "\<not> userCashedOut (game s)" by simp_all
  show ?thesis
    unfolding cashOut_after [OF r] using r by (simp add: Let_def del: numeral_less_floor)
next
  case False
  then show ?thesis by (auto simp: cashOut_idle)
qed

lemma cashOut_credit:
  assumes "isRunning (game s)" "\<not> userCashedOut (game s)"
  shows "xp (user (after (cashOut clip s))) =
           xp (user s) + userWinningsXP (game (after (cashOut clip s)))"
    and "totalWon (user (after (cashOut clip s))) =
           totalWon (user s) + userWinningsXP (game (after (cashOut clip s)))"
    and "totalWagered (user (after (cashOut clip s))) =
           totalWagered (user s) + userWagerXP (game s)"
    and "gamesPlayed (user (after (cashOut clip s))) = gamesPlayed (user s) + 1"
  unfolding cashOut_after [OF assms]
  by (simp_all del: numeral_less_floor)

lemma cashOut_climbRender [simp]: "climbRender (after (cashOut clip s)) = climbRender s"
proof (cases "isRunning (game s) \<and> \<not> userCashedOut (game s)")
  case True
  then have r: "isRunning (game s)" "\<not> userCashedOut (game s)" by simp_all
  show ?thesis unfolding cashOut_after [OF r] by (simp del: numeral_less_floor)
qed (auto simp: cashOut_idle)

lemma crashGame_game:
  "game (crashGame r c s) = (game s)\<lparr>isRunning := False, isCrashed := True, isExploding := True,
     lastRounds := take 10 (currentMultiplier (game s) # lastRounds (game s))\<rparr>"
  by (simp add: crashGame_def Let_def)

lemma crashGame_frame [simp]:
  "xp (user (crashGame r c s)) = xp (user s)"
  "dailyStreak (user (crashGame r c s)) = dailyStreak (user s)"
  "creator (crashGame r c s) = creator s"
  "autoPlay (crashGame r c s) = autoPlay s"
  "climbRender (crashGame r c s) = climbRender s"
  by (simp_all add: crashGame_def Let_def)

lemma climbTick_climbRender [simp]: "climbRender (climbTick t s) = climbRender s"
  by (simp add: climbTick_def climbUpdate_def Let_def split: option.splits)

lemma activateXPBoost_frame [simp]:
  "game (activateXPBoost m d s) = game s"
  "user (activateXPBoost m d s) = user s"
  "climbRender (activateXPBoost m d s) = climbRender s"
  by (simp_all add: activateXPBoost_def)

lemma applyReward_frame [simp]:
  "game (applyReward rw s) = game s"
  "climbRender (applyReward rw s) = climbRender s"
  by (simp_all add: applyReward_def split: reward_type.splits option.splits)

lemma triggerMysteryBox_frame [simp]:
  "game (triggerMysteryBox u c s) = game s"
  "climbRender (triggerMysteryBox u c s) = climbRender s"
  by (simp_all add: triggerMysteryBox_def split: option.splits)

subsection \<open>Example states\<close>

lemmas round_defs = placeWager_def startRound_def startMultiplierClimb_def climbTick_def
  climbUpdate_def multiplierAt_def generateCrashPoint_def setTimeout_def step_def commit_def
  currentRender_def initial_state_def initial_game_def initial_user_def initial_autoPlay_def
  initial_render_def

lemma isGuest_initial: "isGuest initial_state"
  by (simp add: isGuest_def initial_state_def)

lemma not_isGuest_member: "\<not> isGuest member_state"
  by (simp add: isGuest_def member_state_def initial_state_def initial_user_def)

lemma demo_start_eq:
  "demo_start =
     initial_state\<lparr>
       game := initial_game\<lparr>isRunning := True, isWaiting := False,
                 crashPoint := Some 2.25\<rparr>,
       user := initial_user\<lparr>xp := 950\<rparr>,
       multiplierInterval := True,
       climbRender := initial_render\<lparr>
         rGame := initial_game\<lparr>isRunning := True, isWaiting := False,
                   crashPoint := Some 2.25\<rparr>,
         rUser := initial_user\<lparr>xp := 950\<rparr>\<rparr>\<rparr>"
  by (simp add: demo_start_def round_defs Let_def)

lemma demo_round_eq:
  "demo_round =
     initial_state\<lparr>
       game := initial_game\<lparr>isRunning := True, isWaiting := False,
                 crashPoint := Some 2.25, currentMultiplier := 1.4\<rparr>,
       user := initial_user\<lparr>xp := 950\<rparr>,
       multiplierInterval := True, lastMultiplier := 1.4,
       climbRender := initial_render\<lparr>
         rGame := initial_game\<lparr>isRunning := True, isWaiting := False,
                   crashPoint := Some 2.25, currentMultiplier := 1.4\<rparr>,
         rUser := initial_user\<lparr>xp := 950\<rparr>\<rparr>\<rparr>"
  by (simp add: demo_round_def round_defs Let_def power2_eq_square)

lemma demo_round_fields:
  "isRunning (game demo_round)" "\<not> userCashedOut (game demo_round)"
  "userWagerXP (game demo_round) = 50" "currentMultiplier (game demo_round) = 1.4"
  "xpBoostMultiplier (creator demo_round) = 1" "xp (user demo_round) = 950"
  "isGuest demo_round" "lastRounds (game demo_round) = []"
  "crashPoint (game demo_round) = Some 2.25"
  "crashPoint (rGame (intervalRender demo_round)) = None"
  "guestRender (intervalRender demo_round)"
  unfolding demo_round_eq
  by (simp_all add: initial_game_def initial_state_def initial_user_def initial_render_def
      isGuest_def guestRender_def)

lemma overrun_round_eq:
  "overrun_round =
     initial_state\<lparr>
       game := initial_game\<lparr>isRunning := True, isWaiting := False,
                 crashPoint := Some 2.25, currentMultiplier := 2.6\<rparr>,
       user := initial_user\<lparr>xp := 950\<rparr>,
       multiplierInterval := True, lastMultiplier := 2.6,
       climbRender := initial_render\<lparr>
         rGame := initial_game\<lparr>isRunning := True, isWaiting := False,
                   crashPoint := Some 2.25, currentMultiplier := 2.6\<rparr>,
         rUser := initial_user\<lparr>xp := 950\<rparr>\<rparr>\<rparr>"
  by (simp add: overrun_round_def round_defs Let_def power2_eq_square)

lemma overrun_round_fields:
  "isRunning (game overrun_round)" "\<not> userCashedOut (game overrun_round)"
  "userWagerXP (game overrun_round) = 50" "currentMultiplier (game overrun_round) = 2.6"
  "xpBoostMultiplier (creator overrun_round) = 1" "xp (user overrun_round) = 950"
  "isGuest overrun_round" "crashPoint (game overrun_round) = Some 2.25"
  unfolding overrun_round_eq
  by (simp_all add: initial_game_def initial_state_def initial_user_def isGuest_def)

subsection \<open>The render of the climb\<close>

text \<open>
  No callback touches the \<^verbatim>\<open>startMultiplierClimb\<close> at hand; only a render replaces it.
  So in every state that events reach from the initial one it was created with the crash
  point and the multiplier that the state has now.
\<close>

lemma handler_climbRender: "climbRender (handler e s) = climbRender s"
proof (cases e)
  case (PlaceWager u u')
  then show ?thesis
    by (simp add: placeWager_def startRound_def startMultiplierClimb_def Let_def)
next
  case (CrashGame r)
  then show ?thesis by (simp split: option.splits prod.splits)
next
  case ResetRoundTimerFires
  then show ?thesis by (simp add: resetRoundTimer_def split: option.splits prod.splits)
next
  case OfferSecondChance
  then show ?thesis by (simp add: offerSecondChance_def split: option.splits prod.splits)
next
  case SecondChancePay
  then show ?thesis
    by (simp add: secondChancePay_def closeModal_def Let_def split: option.splits)
next
  case SecondChanceDecline
  then show ?thesis by (simp add: secondChanceDecline_def closeModal_def split: option.splits)
next
  case (BuyCosmetic ident price)
  then show ?thesis by (simp add: buyCosmetic_def)
next
  case (StreakBonusTimerFires u clip)
  then show ?thesis by (simp split: option.splits prod.splits)
next
  case (PurchaseXPBoost b p)
  then show ?thesis by (simp add: purchaseXPBoost_def split: option.splits prod.splits)
next
  case (DailyStreak d y)
  then show ?thesis by (simp add: updateDailyStreak_def Let_def)
next
  case (TrackReferral c n r)
  then show ?thesis by (simp add: trackReferral_def)
qed (simp_all add: setWager_def increaseWager_def decreaseWager_def setAutoPlayWager_def
       activateFOMOEvent_def boostExpired_def)

lemma tracked_initial: "tracked initial_state"
  by (simp add: tracked_def initial_state_def initial_render_def)

lemma tracked_step: "tracked s \<Longrightarrow> tracked (step e s)"
  using handler_climbRender [of e s]
  by (simp add: tracked_def step_def commit_def currentRender_def)

lemma tracked_run: "tracked s \<Longrightarrow> tracked (run es s)"
  by (induction es arbitrary: s) (simp_all add: tracked_step)

text \<open>
  The interval that \<^verbatim>\<open>placeWager\<close> installs therefore compares the multiplier with the
  crash point that the state had before the wager: none in the first round, the crash point
  of the round before in every later round. The crash point drawn for the round itself is
  not the one it reads.
\<close>

lemma placeWager_interval_crash_point:
  assumes "tracked s" and "placeWager u u' s = Inr s'"
  shows "crashPoint (rGame (intervalRender s')) = crashPoint (game s)
       \<and> crashPoint (game s') = Some (generateCrashPoint u u')
       \<and> multiplierInterval s'"
  using assms
  by (auto simp: placeWager_def startRound_def startMultiplierClimb_def tracked_def Let_def
      split: if_splits)

lemma stale_crash_point:
  assumes "placeWager u u' (run es initial_state) = Inr s'"
  shows "crashPoint (rGame (intervalRender s')) = crashPoint (game (run es initial_state))"
  using placeWager_interval_crash_point [OF tracked_run [OF tracked_initial] assms] by simp

text \<open>
  While the crash point of the interval's render is \<^verbatim>\<open>null\<close>, as in every first round,
  no tick clamps the multiplier, clears the interval or schedules \<^verbatim>\<open>crashGame\<close>.
\<close>

lemma climbTick_without_crash_point:
  assumes "crashPoint (rGame (intervalRender s)) = None"
  shows "climbTick t s = (if multiplierInterval s then climbUpdate (multiplierAt t) s else s)"
  using assms by (simp add: climbTick_def Let_def)

lemma climb_without_crash_point:
  assumes "crashPoint (rGame (intervalRender s)) = None"
  shows "multiplierInterval (run (map ClimbTick ts) s) = multiplierInterval s
       \<and> scheduled (run (map ClimbTick ts) s) = scheduled s
       \<and> isRunning (game (run (map ClimbTick ts) s)) = isRunning (game s)
       \<and> crashPoint (rGame (intervalRender (run (map ClimbTick ts) s))) = None"
  using assms
proof (induction ts arbitrary: s)
  case Nil
  then show ?case by simp
next
  case (Cons t ts)
  have tick: "step (ClimbTick t) s = commit s (climbTick t s)" by (simp add: step_def)
  from Cons.prems have k: "multiplierInterval (step (ClimbTick t) s) = multiplierInterval s"
    "scheduled (step (ClimbTick t) s) = scheduled s"
    "isRunning (game (step (ClimbTick t) s)) = isRunning (game s)"
    "crashPoint (rGame (intervalRender (step (ClimbTick t) s))) = None"
    unfolding tick
    by (simp_all add: climbTick_without_crash_point climbUpdate_def commit_def)
  from Cons.IH [OF k(4)] k show ?case by simp
qed

subsection \<open>Placing a wager\<close>

text \<open>
  C1. For every wager \<open>w\<close> with \<open>10 \<le> w \<le> xp\<close> placed while no round is running,
  \<^verbatim>\<open>placeWager\<close> succeeds: the player's XP afterwards is the XP before minus \<open>w\<close>, and the
  round is running (no longer waiting, not crashed, not cashed out), with a fresh crash
  point, the multiplier at \<open>1.00\<close> and the climb timer installed.
\<close>

theorem placeWager_accepts:
  assumes "\<not> isRunning (game s)"
    and "10 \<le> userWagerXP (game s)"
    and "userWagerXP (game s) \<le> xp (user s)"
  shows "\<exists>s'. placeWager u u' s = Inr s'
           \<and> xp (user s') = xp (user s) - userWagerXP (game s)
           \<and> isRunning (game s') \<and> \<not> isWaiting (game s')
           \<and> \<not> isCrashed (game s') \<and> \<not> userCashedOut (game s')
           \<and> userWagerXP (game s') = userWagerXP (game s)
           \<and> crashPoint (game s') = Some (generateCrashPoint u u')
           \<and> currentMultiplier (game s') = 1.00
           \<and> multiplierInterval s'"
  using assms
  by (simp add: placeWager_def startRound_def startMultiplierClimb_def Let_def)

theorem placeWager_accepts_witness:
  "\<exists>s'. placeWager 0.6 0.5 initial_state = Inr s' \<and> xp (user s') = 950 \<and> isRunning (game s')"
  using placeWager_accepts [of initial_state "0.6" "0.5"]
  by (auto simp: initial_state_def initial_game_def initial_user_def)

text \<open>
  C3 asks that a wager below the minimum of 10 be rejected without a change of state. The
  guard of \<^verbatim>\<open>placeWager\<close> is \<^verbatim>\<open>wager <= 0\<close>, under the message "Wager must be at least
  10 XP!". With 5 XP left, \<^verbatim>\<open>increaseWager\<close> sets the wager to
  \<open>min 5 (10 + 10) = 5\<close>, and \<^verbatim>\<open>placeWager\<close> accepts it: the round runs and the XP
  drops to 0.
\<close>

theorem wager_below_ten_accepted:
  "userWagerXP (game (run [SetWager 10, IncreaseWager]
       (initial_state\<lparr>user := initial_user\<lparr>xp := 5\<rparr>\<rparr>))) = 5
   \<and> \<not> isl (placeWager 0.6 0.5 (run [SetWager 10, IncreaseWager]
       (initial_state\<lparr>user := initial_user\<lparr>xp := 5\<rparr>\<rparr>)))
   \<and> xp (user (projr (placeWager 0.6 0.5 (run [SetWager 10, IncreaseWager]
       (initial_state\<lparr>user := initial_user\<lparr>xp := 5\<rparr>\<rparr>))))) = 0
   \<and> isRunning (game (projr (placeWager 0.6 0.5 (run [SetWager 10, IncreaseWager]
       (initial_state\<lparr>user := initial_user\<lparr>xp := 5\<rparr>\<rparr>)))))"
  by (simp add: placeWager_def startRound_def startMultiplierClimb_def Let_def setWager_def
        increaseWager_def step_def commit_def initial_state_def initial_game_def
        initial_user_def)

text \<open>The part of C3 that the code keeps: a wager of zero or less, and a wager above the
  balance, are rejected before any update.\<close>

lemma placeWager_rejects:
  "\<not> isRunning (game s) \<Longrightarrow> userWagerXP (game s) \<le> 0 \<Longrightarrow> placeWager u u' s = Inl WagerTooLow"
  "\<not> isRunning (game s) \<Longrightarrow> 0 < userWagerXP (game s) \<Longrightarrow> xp (user s) < userWagerXP (game s) \<Longrightarrow>
     placeWager u u' s = Inl InsufficientXP"
  by (simp_all add: placeWager_def Let_def)

subsection \<open>Cashing out\<close>

text \<open>
  C2 asks that a cash-out pay \<open>\<lfloor>wager \<cdot> multiplier \<cdot> xpBoostMultiplier\<rfloor>\<close> and that the
  captured cash-out multiplier never exceed the round's crash point. The tick of the climb
  is to clamp the multiplier at the crash point, but the interval that \<^verbatim>\<open>placeWager\<close>
  installs belongs to a \<^verbatim>\<open>startMultiplierClimb\<close> created before the round, whose
  \<^verbatim>\<open>game.crashPoint\<close> is still \<^verbatim>\<open>null\<close> in the first round. A guest wagers 50 XP; the
  crash point drawn for the round is \<open>2.25\<close>; the ticks at 1, 2 and 4 seconds store
  \<open>1.1\<close>, \<open>1.4\<close> and \<open>2.6\<close>, and the round is still running. The cash-out then
  captures \<open>2.6\<close>, above the crash point, and pays \<open>\<lfloor>50 \<cdot> 2.6\<rfloor> = 130\<close> XP.
\<close>

theorem cashOut_above_crash_point:
  "isRunning (game overrun_round) \<and> \<not> userCashedOut (game overrun_round)
   \<and> userWagerXP (game overrun_round) = 50
   \<and> crashPoint (game overrun_round) = Some 2.25
   \<and> currentMultiplier (game overrun_round) = 2.6
   \<and> crashPoint (game (after (cashOut CopySucceeds overrun_round))) = Some 2.25
   \<and> userCashOutMultiplier (game (after (cashOut CopySucceeds overrun_round))) = Some 2.6
   \<and> (\<exists>cp m. crashPoint (game (after (cashOut CopySucceeds overrun_round))) = Some cp
         \<and> userCashOutMultiplier (game (after (cashOut CopySucceeds overrun_round))) = Some m
         \<and> cp < m)
   \<and> userWinningsXP (game (after (cashOut CopySucceeds overrun_round))) = 130
   \<and> xp (user (after (cashOut CopySucceeds overrun_round))) = 950 + 130
   \<and> userCashedOut (game (after (cashOut CopySucceeds overrun_round)))
   \<and> \<not> isRunning (game (after (cashOut CopySucceeds overrun_round)))"
proof -
  have f: "crashPoint (game (after (cashOut CopySucceeds overrun_round))) = Some 2.25"
    "userCashOutMultiplier (game (after (cashOut CopySucceeds overrun_round))) = Some 2.6"
    "userWinningsXP (game (after (cashOut CopySucceeds overrun_round))) = 130"
    "xp (user (after (cashOut CopySucceeds overrun_round))) = 950 + 130"
    "userCashedOut (game (after (cashOut CopySucceeds overrun_round)))"
    "\<not> isRunning (game (after (cashOut CopySucceeds overrun_round)))"
    by (simp_all add: cashOut_after [OF overrun_round_fields(1,2)] overrun_round_fields)
  have "\<exists>cp m. crashPoint (game (after (cashOut CopySucceeds overrun_round))) = Some cp
         \<and> userCashOutMultiplier (game (after (cashOut CopySucceeds overrun_round))) = Some m
         \<and> cp < m"
    unfolding f by (intro exI [of _ "2.25"] exI [of _ "2.6"]) simp
  with f overrun_round_fields show ?thesis by simp
qed

text \<open>
  The rest of what C2 asks holds: a cash-out while the round is running and not yet
  cashed out records the winnings \<open>\<lfloor>wager \<cdot> multiplier \<cdot> xpBoostMultiplier\<rfloor>\<close>, captures the
  current multiplier as the cash-out multiplier and adds the winnings to the player's XP.
\<close>

lemma cashOut_pays_floor:
  assumes "isRunning (game s)" and "\<not> userCashedOut (game s)"
  shows "userWinningsXP (game (after (cashOut clip s))) =
           \<lfloor>real_of_int (userWagerXP (game s)) * currentMultiplier (game s)
              * xpBoostMultiplier (creator s)\<rfloor>
       \<and> userCashOutMultiplier (game (after (cashOut clip s))) = Some (currentMultiplier (game s))
       \<and> xp (user (after (cashOut clip s))) =
           xp (user s) + userWinningsXP (game (after (cashOut clip s)))
       \<and> userCashedOut (game (after (cashOut clip s)))
       \<and> crashPoint (game (after (cashOut clip s))) = crashPoint (game s)"
proof -
  have g: "userWinningsXP (game (after (cashOut clip s))) =
           \<lfloor>real_of_int (userWagerXP (game s)) * currentMultiplier (game s)
              * xpBoostMultiplier (creator s)\<rfloor>"
    "userCashOutMultiplier (game (after (cashOut clip s))) = Some (currentMultiplier (game s))"
    "userCashedOut (game (after (cashOut clip s)))"
    "crashPoint (game (after (cashOut clip s))) = crashPoint (game s)"
    using assms by (simp_all add: cashOut_game Let_def del: numeral_less_floor)
  note x = cashOut_credit(1) [OF assms, of clip]
  from g x show ?thesis by simp
qed

text \<open>
  For a signed-in player whose winnings exceed 1000, \<^verbatim>\<open>cashOut\<close> stops with the
  \<^verbatim>\<open>TypeError\<close> of the share text: the winnings are credited, but the round stays running
  and the climb timer stays installed.
\<close>

lemma cashOut_big_win_throws:
  assumes "isRunning (game s)" "\<not> userCashedOut (game s)" "\<not> isGuest s"
    and "1000 < \<lfloor>real_of_int (userWagerXP (game s)) * currentMultiplier (game s)
                    * xpBoostMultiplier (creator s)\<rfloor>"
  shows "\<exists>s'. cashOut clip s = Throws TypeError s' \<and> isRunning (game s')
           \<and> multiplierInterval s' = multiplierInterval s"
  unfolding cashOut_after [OF assms(1,2)] using assms by (simp del: numeral_less_floor)

subsection \<open>The multiplier climb\<close>

text \<open>
  C4 asks that the stored multiplier follow \<open>1 + 0.1\<cdot>(t/1000)\<^sup>2\<close>, never exceed the round's
  crash point, and be set to exactly the crash point, with the round settled as crashed,
  once the curve reaches it. The tick has the clamp, but compares with the
  \<^verbatim>\<open>game.crashPoint\<close> of its render, which is older than the round. In a guest's first
  round with the crash point \<open>2.25\<close> the ticks at 1, 2 and 4 seconds store \<open>1.1\<close>,
  \<open>1.4\<close> and \<open>2.6\<close>: the multiplier has passed the crash point, the interval still runs,
  \<^verbatim>\<open>crashGame\<close> is not scheduled and the round is neither crashed nor settled. (Nor does
  the stored multiplier follow the curve at every tick: an update is skipped unless it
  differs from the last stored value by more than \<open>0.01\<close>, so ten milliseconds into the
  round the curve is at \<open>1.00001\<close> and the stored multiplier is still \<open>1\<close>.)
\<close>

theorem climb_passes_crash_point:
  "crashPoint (game demo_start) = Some 2.25
   \<and> isRunning (game demo_start) \<and> multiplierInterval demo_start
   \<and> climbTrace [1000, 2000, 4000] demo_start = [1.1, 1.4, 2.6]
   \<and> multiplierAt 4000 = 2.6
   \<and> crashPoint (game (run (map ClimbTick [1000, 2000, 4000]) demo_start)) = Some 2.25
   \<and> currentMultiplier (game (run (map ClimbTick [1000, 2000, 4000]) demo_start)) = 2.6
   \<and> (\<exists>cp. crashPoint (game (run (map ClimbTick [1000, 2000, 4000]) demo_start)) = Some cp
         \<and> cp < currentMultiplier (game (run (map ClimbTick [1000, 2000, 4000]) demo_start)))
   \<and> multiplierInterval (run (map ClimbTick [1000, 2000, 4000]) demo_start)
   \<and> scheduled (run (map ClimbTick [1000, 2000, 4000]) demo_start) = []
   \<and> isRunning (game (run (map ClimbTick [1000, 2000, 4000]) demo_start))
   \<and> \<not> isCrashed (game (run (map ClimbTick [1000, 2000, 4000]) demo_start))
   \<and> multiplierAt 10 = 1.00001
   \<and> currentMultiplier (game (climbTick 10 demo_start)) = 1"
proof -
  have f: "crashPoint (game demo_start) = Some 2.25"
    "isRunning (game demo_start)" "multiplierInterval demo_start"
    "climbTrace [1000, 2000, 4000] demo_start = [1.1, 1.4, 2.6]"
    "multiplierAt 4000 = 2.6"
    "crashPoint (game (run (map ClimbTick [1000, 2000, 4000]) demo_start)) = Some 2.25"
    "currentMultiplier (game (run (map ClimbTick [1000, 2000, 4000]) demo_start)) = 2.6"
    "multiplierInterval (run (map ClimbTick [1000, 2000, 4000]) demo_start)"
    "scheduled (run (map ClimbTick [1000, 2000, 4000]) demo_start) = []"
    "isRunning (game (run (map ClimbTick [1000, 2000, 4000]) demo_start))"
    "\<not> isCrashed (game (run (map ClimbTick [1000, 2000, 4000]) demo_start))"
    "multiplierAt 10 = 1.00001"
    "currentMultiplier (game (climbTick 10 demo_start)) = 1"
    unfolding demo_start_eq
    by (simp_all add: round_defs Let_def power2_eq_square)
  have "\<exists>cp. crashPoint (game (run (map ClimbTick [1000, 2000, 4000]) demo_start)) = Some cp
         \<and> cp < currentMultiplier (game (run (map ClimbTick [1000, 2000, 4000]) demo_start))"
    unfolding f by (intro exI [of _ "2.25"]) simp
  with f show ?thesis by simp
qed

text \<open>
  In the first round this holds whatever the crash point and the times of the ticks are:
  the round started by the first wager is never settled by the climb.
\<close>

lemma first_round_never_crashes:
  "multiplierInterval (run (PlaceWager u u' # map ClimbTick ts) initial_state)
   \<and> scheduled (run (PlaceWager u u' # map ClimbTick ts) initial_state) = []
   \<and> isRunning (game (run (PlaceWager u u' # map ClimbTick ts) initial_state))
   \<and> crashPoint (game (run (PlaceWager u u' # map ClimbTick ts) initial_state))
       = Some (generateCrashPoint u u')"
proof -
  define s where "s = step (PlaceWager u u') initial_state"
  have s: "crashPoint (rGame (intervalRender s)) = None" "multiplierInterval s"
    "scheduled s = []" "isRunning (game s)"
    "crashPoint (game s) = Some (generateCrashPoint u u')"
    unfolding s_def
    by (simp_all add: step_def commit_def placeWager_def startRound_def
        startMultiplierClimb_def Let_def initial_state_def initial_game_def initial_user_def
        initial_render_def)
  have cp: "crashPoint (game (run (map ClimbTick ts) s')) = crashPoint (game s')" for s'
  proof (induction ts arbitrary: s')
    case Nil
    show ?case by simp
  next
    case (Cons t ts)
    have "crashPoint (game (step (ClimbTick t) s')) = crashPoint (game s')"
      by (simp add: step_def commit_def climbTick_def climbUpdate_def setTimeout_def Let_def
          split: option.splits)
    with Cons.IH [of "step (ClimbTick t) s'"] show ?case by simp
  qed
  from climb_without_crash_point [OF s(1), of ts] s(2-5) cp [of s] show ?thesis
    by (simp add: s_def)
qed

text \<open>
  In a later round the clamp is at the crash point of the round before. The second round
  of the guest has the crash point \<open>6.5\<close>; its climb stops at \<open>2.25\<close>, the crash point
  of the first round, and the round crashes there.
\<close>

lemma second_round_eq:
  "second_round =
     initial_state\<lparr>
       game := initial_game\<lparr>isRunning := True, isWaiting := False,
                 crashPoint := Some 6.5\<rparr>,
       user := initial_user\<lparr>xp := 970, totalWon := 70, totalWagered := 50, gamesPlayed := 1,
                 dailyGamesPlayed := 1, biggestWin := 70, biggestMultiplier := 1.4\<rparr>,
       multiplierInterval := True,
       intervalRender := initial_render\<lparr>
         rGame := initial_game\<lparr>crashPoint := Some 2.25\<rparr>,
         rUser := initial_user\<lparr>xp := 1020, totalWon := 70, totalWagered := 50,
                   gamesPlayed := 1, dailyGamesPlayed := 1, biggestWin := 70,
                   biggestMultiplier := 1.4\<rparr>\<rparr>,
       climbRender := initial_render\<lparr>
         rGame := initial_game\<lparr>isRunning := True, isWaiting := False,
                   crashPoint := Some 6.5\<rparr>,
         rUser := initial_user\<lparr>xp := 970, totalWon := 70, totalWagered := 50,
                   gamesPlayed := 1, dailyGamesPlayed := 1, biggestWin := 70,
                   biggestMultiplier := 1.4\<rparr>\<rparr>\<rparr>"
  unfolding second_round_def demo_round_eq
  by (simp add: round_defs cashOut_def updateWinStreak_def guestRender_def resetRoundTimer_def
      resetRound_def Let_def)

lemma second_round_clamps_at_first_crash_point:
  "crashPoint (game second_round) = Some 6.5
   \<and> crashPoint (rGame (intervalRender second_round)) = Some 2.25
   \<and> climbTrace [1000, 2000, 4000] second_round = [1.1, 1.4, 2.25]
   \<and> \<not> multiplierInterval (run (map ClimbTick [1000, 2000, 4000]) second_round)
   \<and> scheduled (run (map ClimbTick [1000, 2000, 4000]) second_round)
       = [CrashGameTimer (intervalRender second_round)]
   \<and> isCrashed (game (run (map ClimbTick [1000, 2000, 4000] @ [CrashGame 0.9]) second_round))
   \<and> lastRounds (game (run (map ClimbTick [1000, 2000, 4000] @ [CrashGame 0.9]) second_round))
       = [2.25]"
  unfolding second_round_eq
  by (simp add: round_defs crashGame_def updateWinStreak_def guestRender_def Let_def
      power2_eq_square)

subsection \<open>XP stays non-negative\<close>

text \<open>
  C5 asks that \<open>xp \<ge> 0\<close> be preserved by every operation. The auto-play wager field
  lacks the clamp \<^verbatim>\<open>Math.max(10, ...)\<close> of the round's wager field, and \<^verbatim>\<open>cashOut\<close>
  computes the winnings from the wager as it is at the cash-out. In a running round with
  950 XP left, typing \<open>-5000\<close> there sets the wager to \<open>-5000\<close>, and the cash-out at
  \<open>1.4\<close> adds \<open>\<lfloor>-5000 \<cdot> 1.4\<rfloor> = -7000\<close>: the XP drops to \<open>-6050\<close>.
\<close>

theorem cashOut_negative_wager_xp:
  "isRunning (game (run [SetAutoPlayWager (- 5000)] demo_round))
   \<and> userWagerXP (game (run [SetAutoPlayWager (- 5000)] demo_round)) = - 5000
   \<and> userWinningsXP (game (run [SetAutoPlayWager (- 5000), CashOut CopySucceeds] demo_round))
       = - 7000
   \<and> xp (user (run [SetAutoPlayWager (- 5000), CashOut CopySucceeds] demo_round)) = - 6050"
  unfolding demo_round_eq
  by (simp add: setAutoPlayWager_def cashOut_def updateWinStreak_def guestRender_def
      setTimeout_def step_def commit_def currentRender_def Let_def initial_state_def
      initial_game_def initial_user_def initial_autoPlay_def initial_render_def)

text \<open>
  Of the three guards that C5 names, the two of the current render hold: a wager above the
  balance and a cosmetic the player cannot afford are rejected with the state unchanged.
  The "Pay 200 XP" button of the second-chance dialogue tests the \<^verbatim>\<open>user.xp\<close> of the
  render of \<^verbatim>\<open>offerSecondChance\<close>, which is the balance from before the lost wager was
  deducted, and subtracts 200 from the balance as it is.
\<close>

lemma xp_guards_reject:
  "xp (user s) < userWagerXP (game s) \<Longrightarrow>
     isl (placeWager u u' s) \<and> step (PlaceWager u u') s = s"
  "xp (user s) < price \<Longrightarrow>
     isl (buyCosmetic ident price s) \<and> step (BuyCosmetic ident price) s = s"
  by (simp_all add: placeWager_def buyCosmetic_def step_def commit_def Let_def)

lemma secondChancePay_tests_render:
  "secondChanceModal s = Some c \<Longrightarrow> 200 \<le> xp (rUser c) \<Longrightarrow>
     xp (user (secondChancePay s)) = xp (user s) - 200"
  "secondChanceModal s = Some c \<Longrightarrow> xp (rUser c) < 200 \<Longrightarrow>
     user (secondChancePay s) = user s"
  by (simp_all add: secondChancePay_def closeModal_def Let_def)

text \<open>
  A signed-in player with 1020 XP after a first round wagers 1000 XP in the second round,
  which crashes and leads to the dialogue: the balance is 20 XP, the button still sees
  1020 XP, and the payment leaves \<open>-180\<close> XP. The statistics of the crash were booked with
  the wager of 50 XP that the render of \<^verbatim>\<open>crashGame\<close> held, not with the 1000 XP at
  stake.
\<close>

lemma second_chance_fields:
  "xp (user second_chance) = 20"
  "userWagerXP (game second_chance) = 1000"
  "totalWagered (user second_chance) = 50 + 50"
  "map_option (\<lambda>c. xp (rUser c)) (secondChanceModal second_chance) = Some 1020"
  "xp (user (step SecondChancePay second_chance)) = - 180"
  unfolding second_chance_def member_state_def
  by (simp_all add: round_defs cashOut_def crashGame_def updateWinStreak_def guestRender_def
      resetRoundTimer_def resetRound_def setWager_def offerSecondChance_def
      secondChancePay_def closeModal_def Let_def power2_eq_square)

subsection \<open>Round history\<close>

lemma crashGame_history:
  "lastRounds (game (crashGame r c s)) = take 10 (currentMultiplier (game s) # lastRounds (game s))"
  "length (lastRounds (game (crashGame r c s))) \<le> 10"
  "length (lastRounds (game s)) = 10 \<Longrightarrow>
     lastRounds (game (crashGame r c s)) = currentMultiplier (game s) # butlast (lastRounds (game s))"
  by (simp_all add: crashGame_game butlast_conv_take)

lemma cashOut_history: "lastRounds (game (after (cashOut clip s))) = lastRounds (game s)"
  by (simp add: cashOut_game Let_def del: numeral_less_floor)

text \<open>No callback but \<^verbatim>\<open>crashGame\<close> writes the history.\<close>

lemma lastRounds_only_crashGame:
  assumes "\<forall>r. e \<noteq> CrashGame r"
  shows "lastRounds (game (step e s)) = lastRounds (game s)"
proof -
  have "lastRounds (game (handler e s)) = lastRounds (game s)"
  proof (cases e)
    case (PlaceWager u u')
    then show ?thesis
      by (simp add: placeWager_def startRound_def startMultiplierClimb_def Let_def)
  next
    case (ClimbTick t)
    then show ?thesis
      by (simp add: climbTick_def climbUpdate_def Let_def split: option.splits)
  next
    case (CrashGame r)
    with assms show ?thesis by simp
  next
    case (CashOut clip)
    then show ?thesis by (simp add: cashOut_history)
  next
    case ResetRoundTimerFires
    then show ?thesis by (simp add: resetRoundTimer_def split: option.splits prod.splits)
  next
    case OfferSecondChance
    then show ?thesis by (simp add: offerSecondChance_def split: option.splits prod.splits)
  next
    case SecondChancePay
    then show ?thesis
      by (simp add: secondChancePay_def closeModal_def Let_def split: option.splits)
  next
    case SecondChanceDecline
    then show ?thesis by (simp add: secondChanceDecline_def closeModal_def split: option.splits)
  next
    case (BuyCosmetic ident price)
    then show ?thesis by (simp add: buyCosmetic_def)
  next
    case (StreakBonusTimerFires u clip)
    then show ?thesis by (simp split: option.splits prod.splits)
  next
    case (PurchaseXPBoost b p)
    then show ?thesis by (simp add: purchaseXPBoost_def split: option.splits prod.splits)
  next
    case (DailyStreak d y)
    then show ?thesis by (simp add: updateDailyStreak_def Let_def)
  next
    case (TrackReferral c n r)
    then show ?thesis by (simp add: trackReferral_def)
  qed (simp_all add: setWager_def increaseWager_def decreaseWager_def setAutoPlayWager_def
         activateFOMOEvent_def boostExpired_def)
  then show ?thesis by (simp add: step_def commit_def)
qed

text \<open>
  C6 asks that every settlement prepend the round's final multiplier to the history.
  \<^verbatim>\<open>crashGame\<close> does so, keeping the ten most recent entries; \<^verbatim>\<open>cashOut\<close> settles the
  round, clears the climb timer, so that \<^verbatim>\<open>crashGame\<close> never runs for this round, and
  leaves the history as it was. The round cashed out at \<open>1.4\<close> is missing from the
  history, also after the reset for the next round; had it crashed there, the history
  would hold \<open>1.4\<close>.
\<close>

theorem cashOut_round_missing_from_history:
  "userCashedOut (game (after (cashOut CopySucceeds demo_round)))
   \<and> \<not> isRunning (game (after (cashOut CopySucceeds demo_round)))
   \<and> \<not> multiplierInterval (after (cashOut CopySucceeds demo_round))
   \<and> userCashOutMultiplier (game (after (cashOut CopySucceeds demo_round))) = Some 1.4
   \<and> lastRounds (game (after (cashOut CopySucceeds demo_round))) = []
   \<and> lastRounds (game (resetRoundTimer (currentRender demo_round)
                         (after (cashOut CopySucceeds demo_round)))) = []
   \<and> isWaiting (game (run [CashOut CopySucceeds, ResetRoundTimerFires] demo_round))
   \<and> lastRounds (game (run [CashOut CopySucceeds, ResetRoundTimerFires] demo_round)) = []
   \<and> lastRounds (game (crashGame 0.9 (intervalRender demo_round) demo_round)) = [1.4]"
proof -
  have a: "userCashedOut (game (after (cashOut CopySucceeds demo_round)))
     \<and> \<not> isRunning (game (after (cashOut CopySucceeds demo_round)))
     \<and> \<not> multiplierInterval (after (cashOut CopySucceeds demo_round))
     \<and> userCashOutMultiplier (game (after (cashOut CopySucceeds demo_round))) = Some 1.4
     \<and> lastRounds (game (after (cashOut CopySucceeds demo_round))) = []
     \<and> lastRounds (game (resetRoundTimer (currentRender demo_round)
                         (after (cashOut CopySucceeds demo_round)))) = []
     \<and> lastRounds (game (crashGame 0.9 (intervalRender demo_round) demo_round)) = [1.4]"
    by (simp add: cashOut_after [OF demo_round_fields(1,2)] crashGame_game demo_round_fields
        resetRoundTimer_def resetRound_def)
  have b: "isWaiting (game (run [CashOut CopySucceeds, ResetRoundTimerFires] demo_round))
     \<and> lastRounds (game (run [CashOut CopySucceeds, ResetRoundTimerFires] demo_round)) = []"
    unfolding demo_round_eq
    by (simp add: round_defs cashOut_def updateWinStreak_def guestRender_def
        resetRoundTimer_def resetRound_def Let_def)
  from a b show ?thesis by simp
qed

subsection \<open>Guest sessions\<close>

text \<open>
  C10. In guest mode the settlement statistics are asymmetric. A \<^verbatim>\<open>crashGame\<close> created
  in a guest's render leaves \<open>totalWagered\<close>, \<open>gamesPlayed\<close> and \<open>currentStreak\<close>
  unchanged, whatever the state it runs in, whereas one created in the render of a
  signed-in player that had not cashed out adds the wager of that render, counts the game
  and resets the streak; a cash-out in a guest session still credits the winnings to \<open>xp\<close>
  and \<open>totalWon\<close>, adds the wager to \<open>totalWagered\<close> and counts the game.
\<close>

theorem guest_settlement_asymmetry:
  "(guestRender c \<longrightarrow>
        totalWagered (user (crashGame r c s)) = totalWagered (user s)
      \<and> gamesPlayed (user (crashGame r c s)) = gamesPlayed (user s)
      \<and> currentStreak (user (crashGame r c s)) = currentStreak (user s))
   \<and> (\<not> guestRender c \<and> \<not> userCashedOut (rGame c) \<longrightarrow>
        totalWagered (user (crashGame r c s)) = totalWagered (user s) + userWagerXP (rGame c)
      \<and> gamesPlayed (user (crashGame r c s)) = gamesPlayed (user s) + 1
      \<and> currentStreak (user (crashGame r c s)) = 0)
   \<and> (isGuest s \<and> isRunning (game s) \<and> \<not> userCashedOut (game s) \<longrightarrow>
        userWinningsXP (game (after (cashOut clip s))) =
          \<lfloor>real_of_int (userWagerXP (game s)) * currentMultiplier (game s)
             * xpBoostMultiplier (creator s)\<rfloor>
      \<and> xp (user (after (cashOut clip s))) =
          xp (user s) + userWinningsXP (game (after (cashOut clip s)))
      \<and> totalWon (user (after (cashOut clip s))) =
          totalWon (user s) + userWinningsXP (game (after (cashOut clip s)))
      \<and> totalWagered (user (after (cashOut clip s))) =
          totalWagered (user s) + userWagerXP (game s)
      \<and> gamesPlayed (user (after (cashOut clip s))) = gamesPlayed (user s) + 1)"
proof (intro conjI impI)
  assume a: "guestRender c"
  then have "user (crashGame r c s) = user s"
    by (auto simp: crashGame_def updateWinStreak_def guestRender_def Let_def split: if_splits)
  then show "totalWagered (user (crashGame r c s)) = totalWagered (user s)"
    "gamesPlayed (user (crashGame r c s)) = gamesPlayed (user s)"
    "currentStreak (user (crashGame r c s)) = currentStreak (user s)"
    by simp_all
next
  assume a: "\<not> guestRender c \<and> \<not> userCashedOut (rGame c)"
  then have u: "user (crashGame r c s) = (user s)\<lparr>
      totalWagered := totalWagered (user s) + userWagerXP (rGame c),
      gamesPlayed := gamesPlayed (user s) + 1,
      dailyGamesPlayed := dailyGamesPlayed (user s) + 1, currentStreak := 0\<rparr>"
    by (auto simp: crashGame_def updateWinStreak_def guestRender_def Let_def split: if_splits)
  show "totalWagered (user (crashGame r c s)) = totalWagered (user s) + userWagerXP (rGame c)"
    "gamesPlayed (user (crashGame r c s)) = gamesPlayed (user s) + 1"
    "currentStreak (user (crashGame r c s)) = 0"
    unfolding u by simp_all
next
  assume a: "isGuest s \<and> isRunning (game s) \<and> \<not> userCashedOut (game s)"
  then have r: "isRunning (game s)" "\<not> userCashedOut (game s)" by simp_all
  from r show "userWinningsXP (game (after (cashOut clip s))) =
          \<lfloor>real_of_int (userWagerXP (game s)) * currentMultiplier (game s)
             * xpBoostMultiplier (creator s)\<rfloor>"
    by (simp add: cashOut_game Let_def del: numeral_less_floor)
  from cashOut_credit [OF r, of clip]
  show "xp (user (after (cashOut clip s))) =
          xp (user s) + userWinningsXP (game (after (cashOut clip s)))"
    "totalWon (user (after (cashOut clip s))) =
          totalWon (user s) + userWinningsXP (game (after (cashOut clip s)))"
    "totalWagered (user (after (cashOut clip s))) =
          totalWagered (user s) + userWagerXP (game s)"
    "gamesPlayed (user (after (cashOut clip s))) = gamesPlayed (user s) + 1"
    by simp_all
qed

theorem guest_settlement_asymmetry_witness:
  "totalWagered (user (crashGame 0.9 (intervalRender demo_round) demo_round))
       = totalWagered (user demo_round)
   \<and> gamesPlayed (user (crashGame 0.9 (intervalRender demo_round) demo_round))
       = gamesPlayed (user demo_round)
   \<and> xp (user (after (cashOut CopySucceeds demo_round))) = 1020
   \<and> gamesPlayed (user (after (cashOut CopySucceeds demo_round)))
       = gamesPlayed (user demo_round) + 1"
  using guest_settlement_asymmetry [of "intervalRender demo_round" "0.9" demo_round CopySucceeds]
  by (simp add: demo_round_fields)

text \<open>
  The session that starts in the initial state stays a guest's session under every event,
  and each run of \<^verbatim>\<open>crashGame\<close> in it leaves the whole record of the player as it is.
\<close>

lemma takeTimer_rest:
  "takeTimer kind ts = Some (x, rest) \<Longrightarrow> list_all P ts \<Longrightarrow>
   list_all P rest \<and> (\<exists>t. P t \<and> kind t = Some x)"
proof (induction ts arbitrary: rest)
  case Nil
  then show ?case by simp
next
  case (Cons t ts)
  show ?case
  proof (cases "kind t")
    case (Some y)
    with Cons.prems show ?thesis by auto
  next
    case None
    with Cons.prems obtain r where r: "takeTimer kind ts = Some (x, r)" "rest = t # r"
      by (auto split: option.splits)
    from Cons.IH [OF r(1)] Cons.prems(2) r(2) show ?thesis by auto
  qed
qed

lemma guest_kinds:
  "guestTimer t \<Longrightarrow> crashGameTimer t = Some c \<Longrightarrow> guestRender c"
  "guestTimer t \<Longrightarrow> offerSecondChanceTimer t = Some c \<Longrightarrow> guestRender c"
  "guestTimer t \<Longrightarrow> resetRoundTimerOf t = Some c \<Longrightarrow> guestRender c"
  "guestTimer t \<Longrightarrow> streakBonusTimerOf t = Some (n, c) \<Longrightarrow> guestRender c"
  by (cases t; simp add: guestTimer_def)+

lemma guest_session_initial: "guest_session initial_state"
  by (simp add: guest_session_def isGuest_def guestRender_def initial_state_def
      initial_render_def)

lemma crashGame_guest:
  "guestRender c \<Longrightarrow> user (crashGame r c s) = user s"
  by (auto simp: crashGame_def updateWinStreak_def guestRender_def Let_def split: if_splits)

lemma guest_session_commit:
  "guest_session s' \<Longrightarrow> guest_session (commit s s')"
  by (simp add: commit_def guest_session_def isGuest_def guestRender_def currentRender_def)

lemma guest_session_handler:
  assumes g: "guest_session s"
  shows "guest_session (handler e s)"
proof (cases e)
  case (PlaceWager u u')
  with g show ?thesis
    by (auto simp: placeWager_def startRound_def startMultiplierClimb_def Let_def
        guest_session_def isGuest_def)
next
  case (ClimbTick t)
  with g show ?thesis
    by (auto simp: climbTick_def climbUpdate_def setTimeout_def Let_def guest_session_def
        isGuest_def guestTimer_def split: option.splits)
next
  case (CrashGame r)
  show ?thesis
  proof (cases "takeTimer crashGameTimer (scheduled s)")
    case None
    with g CrashGame show ?thesis by simp
  next
    case (Some p)
    obtain c rest where p: "p = (c, rest)" by (cases p)
    from g have "list_all guestTimer (scheduled s)" by (simp add: guest_session_def)
    from takeTimer_rest [OF Some [unfolded p] this] guest_kinds(1)
    have c: "guestRender c" "list_all guestTimer rest" by blast+
    with g Some p CrashGame show ?thesis
      by (auto simp: crashGame_def updateWinStreak_def setTimeout_def Let_def guest_session_def
          isGuest_def guestTimer_def)
  qed
next
  case (CashOut clip)
  show ?thesis
  proof (cases "isRunning (game s) \<and> \<not> userCashedOut (game s)")
    case True
    then have r: "isRunning (game s)" "\<not> userCashedOut (game s)" by simp_all
    from g have guest: "isGuest s" by (simp add: guest_session_def)
    have "guest_session (after (cashOut clip s))"
      unfolding cashOut_after [OF r] using g guest
      by (simp add: updateWinStreak_def setTimeout_def guest_session_def guestTimer_def
          isGuest_def del: numeral_less_floor)
    with CashOut show ?thesis by simp
  next
    case False
    with g CashOut show ?thesis by (auto simp: cashOut_idle)
  qed
next
  case ResetRoundTimerFires
  show ?thesis
  proof (cases "takeTimer resetRoundTimerOf (scheduled s)")
    case None
    with g ResetRoundTimerFires show ?thesis by simp
  next
    case (Some p)
    obtain c rest where p: "p = (c, rest)" by (cases p)
    from g have "list_all guestTimer (scheduled s)" by (simp add: guest_session_def)
    from takeTimer_rest [OF Some [unfolded p] this]
    have c: "list_all guestTimer rest" by blast
    with g Some p ResetRoundTimerFires show ?thesis
      by (auto simp: resetRoundTimer_def resetRound_def guest_session_def isGuest_def)
  qed
next
  case OfferSecondChance
  show ?thesis
  proof (cases "takeTimer offerSecondChanceTimer (scheduled s)")
    case None
    with g OfferSecondChance show ?thesis by simp
  next
    case (Some p)
    obtain c rest where p: "p = (c, rest)" by (cases p)
    from g have "list_all guestTimer (scheduled s)" by (simp add: guest_session_def)
    from takeTimer_rest [OF Some [unfolded p] this] guest_kinds(2)
    have c: "guestRender c" "list_all guestTimer rest" by blast+
    with g Some p OfferSecondChance show ?thesis
      by (auto simp: offerSecondChance_def resetRound_def guest_session_def isGuest_def)
  qed
next
  case SecondChancePay
  with g show ?thesis
    by (auto simp: secondChancePay_def closeModal_def resetRound_def Let_def guest_session_def
        isGuest_def split: option.splits)
next
  case SecondChanceDecline
  with g show ?thesis
    by (auto simp: secondChanceDecline_def closeModal_def resetRound_def guest_session_def
        isGuest_def split: option.splits)
next
  case (SetWager n)
  with g show ?thesis by (simp add: setWager_def guest_session_def isGuest_def)
next
  case IncreaseWager
  with g show ?thesis by (simp add: increaseWager_def guest_session_def isGuest_def)
next
  case DecreaseWager
  with g show ?thesis by (simp add: decreaseWager_def guest_session_def isGuest_def)
next
  case (SetAutoPlayWager n)
  with g show ?thesis by (simp add: setAutoPlayWager_def guest_session_def isGuest_def)
next
  case (BuyCosmetic ident price)
  with g show ?thesis by (simp add: buyCosmetic_def guest_session_def)
next
  case (StreakBonusTimerFires u clip)
  show ?thesis
  proof (cases "takeTimer streakBonusTimerOf (scheduled s)")
    case None
    with g StreakBonusTimerFires show ?thesis by simp
  next
    case (Some p)
    obtain n c rest where p: "p = ((n, c), rest)" by (cases p) auto
    from g have "list_all guestTimer (scheduled s)" by (simp add: guest_session_def)
    from takeTimer_rest [OF Some [unfolded p] this] guest_kinds(4)
    have c: "guestRender c" "list_all guestTimer rest" by blast+
    with g Some p StreakBonusTimerFires show ?thesis
      by (auto simp: triggerMysteryBox_def guest_session_def isGuest_def)
  qed
next
  case (PurchaseXPBoost b p)
  with g show ?thesis by (simp add: purchaseXPBoost_def guest_session_def)
next
  case FomoBoostStarts
  with g show ?thesis by (simp add: activateFOMOEvent_def guest_session_def isGuest_def)
next
  case BoostExpires
  with g show ?thesis by (simp add: boostExpired_def guest_session_def isGuest_def)
next
  case (DailyStreak d y)
  with g show ?thesis by (simp add: updateDailyStreak_def guest_session_def)
next
  case (TrackReferral c n r)
  with g show ?thesis by (simp add: trackReferral_def guest_session_def isGuest_def)
qed

lemma guest_session_run: "guest_session s \<Longrightarrow> guest_session (run es s)"
  by (induction es arbitrary: s) (simp_all add: step_def guest_session_commit guest_session_handler)

lemma guest_crash_event:
  assumes "guest_session s"
  shows "user (step (CrashGame r) s) = user s"
proof (cases "takeTimer crashGameTimer (scheduled s)")
  case None
  then show ?thesis by (simp add: step_def commit_def)
next
  case (Some p)
  obtain c rest where p: "p = (c, rest)" by (cases p)
  from assms have "list_all guestTimer (scheduled s)" by (simp add: guest_session_def)
  from takeTimer_rest [OF Some [unfolded p] this] guest_kinds(1)
  have "guestRender c" by blast
  with Some p show ?thesis by (simp add: step_def commit_def crashGame_guest)
qed

lemma guest_session_crash:
  "user (step (CrashGame r) (run es initial_state)) = user (run es initial_state)"
  by (rule guest_crash_event) (rule guest_session_run [OF guest_session_initial])

subsection \<open>Daily streak\<close>

text \<open>
  C9 asks for a bonus of exactly \<open>100 \<times> streakLength\<close> when the updated daily streak
  reaches a multiple of three. For a signed-in player with a streak of 2 who last played
  yesterday, \<^verbatim>\<open>updateDailyStreak\<close> raises the streak to 3 and adds
  \<open>100 \<times> (3 + 1) = 400\<close> XP, not 300: the bonus is computed from \<^verbatim>\<open>prev.dailyStreak + 1\<close>
  after the streak has been incremented. When the same player last played a week ago, the
  streak is reset to 1 and 200 XP are added all the same, since the test reads the streak
  from before the call.
\<close>

theorem updateDailyStreak_third_day_bonus:
  "dailyStreak (user (updateDailyStreak ''2025-03-02'' ''2025-03-01''
       (member_state\<lparr>user := (user member_state)\<lparr>dailyStreak := 2,
          lastPlayDate := Some ''2025-03-01''\<rparr>\<rparr>))) = 3
   \<and> xp (user (updateDailyStreak ''2025-03-02'' ''2025-03-01''
       (member_state\<lparr>user := (user member_state)\<lparr>dailyStreak := 2,
          lastPlayDate := Some ''2025-03-01''\<rparr>\<rparr>))) = 1000 + 400
   \<and> dailyStreak (user (updateDailyStreak ''2025-03-02'' ''2025-03-01''
       (member_state\<lparr>user := (user member_state)\<lparr>dailyStreak := 2,
          lastPlayDate := Some ''2025-02-23''\<rparr>\<rparr>))) = 1
   \<and> xp (user (updateDailyStreak ''2025-03-02'' ''2025-03-01''
       (member_state\<lparr>user := (user member_state)\<lparr>dailyStreak := 2,
          lastPlayDate := Some ''2025-02-23''\<rparr>\<rparr>))) = 1000 + 200"
  by (simp add: updateDailyStreak_def Let_def isGuest_def member_state_def initial_state_def
        initial_user_def)

subsection \<open>Mystery box sampling\<close>

lemma totalWeight_sum: "foldl (\<lambda>sum r. sum + weight r) a xs = a + sum_list (map weight xs)"
  by (induction xs arbitrary: a) simp_all

lemma totalWeight_cumWeight: "totalWeight xs = cumWeight xs (length xs)"
  by (simp add: totalWeight_def cumWeight_def totalWeight_sum)

lemma totalWeight_pos:
  "\<forall>x\<in>set xs. 0 < weight x \<Longrightarrow> xs \<noteq> [] \<Longrightarrow> 0 < totalWeight xs"
  unfolding totalWeight_def totalWeight_sum
  by (cases xs) (auto intro!: add_pos_nonneg sum_list_nonneg simp: less_imp_le)

lemma walkRewards_spanEntry:
  "acc \<le> r \<Longrightarrow> walkRewards (r - acc) xs = spanEntry acc r xs"
proof (induction xs arbitrary: acc)
  case Nil
  show ?case by simp
next
  case (Cons x xs)
  show ?case
  proof (cases "r - acc < weight x")
    case True
    with Cons.prems show ?thesis by simp
  next
    case False
    then have "acc + weight x \<le> r" by simp
    from Cons.IH [OF this] False show ?thesis
      by (simp add: algebra_simps)
  qed
qed

lemma spanEntry_below:
  "r < acc \<Longrightarrow> \<forall>x\<in>set xs. 0 < weight x \<Longrightarrow> spanEntry acc r xs = None"
proof (induction xs arbitrary: acc)
  case Nil
  show ?case by simp
next
  case (Cons x xs)
  then have "r < acc + weight x" by simp
  with Cons show ?case by simp
qed

lemma spanEntry_found:
  "acc \<le> r \<Longrightarrow> r < acc + sum_list (map weight xs) \<Longrightarrow>
   \<exists>x\<in>set xs. spanEntry acc r xs = Some x"
proof (induction xs arbitrary: acc)
  case Nil
  then show ?case by simp
next
  case (Cons x xs)
  show ?case
  proof (cases "r < acc + weight x")
    case True
    with Cons.prems show ?thesis by simp
  next
    case False
    then have "acc + weight x \<le> r" by simp
    moreover from Cons.prems have "r < acc + weight x + sum_list (map weight xs)" by simp
    ultimately obtain y where "y \<in> set xs" "spanEntry (acc + weight x) r xs = Some y"
      using Cons.IH by blast
    with False show ?thesis by simp
  qed
qed

lemma spanEntry_mem: "spanEntry acc r xs = Some x \<Longrightarrow> x \<in> set xs"
  by (induction xs arbitrary: acc) (auto split: if_splits)

text \<open>The entry found is the one at the least index whose cumulative span holds the draw.\<close>

lemma spanEntry_index:
  "spanEntry acc r xs = Some x \<Longrightarrow>
   \<exists>i < length xs. x = xs ! i
      \<and> acc + cumWeight xs i \<le> r \<and> r < acc + cumWeight xs (Suc i)
      \<and> (\<forall>j < i. \<not> (acc + cumWeight xs j \<le> r \<and> r < acc + cumWeight xs (Suc j)))"
proof (induction xs arbitrary: acc)
  case Nil
  then show ?case by simp
next
  case (Cons y ys)
  show ?case
  proof (cases "acc \<le> r \<and> r < acc + weight y")
    case True
    with Cons.prems have "x = y" by simp
    with True show ?thesis by (intro exI [of _ 0]) (simp add: cumWeight_def)
  next
    case False
    with Cons.prems have "spanEntry (acc + weight y) r ys = Some x" by simp
    from Cons.IH [OF this] obtain i where i: "i < length ys" "x = ys ! i"
      "acc + weight y + cumWeight ys i \<le> r"
      "r < acc + weight y + cumWeight ys (Suc i)"
      "\<forall>j < i. \<not> (acc + weight y + cumWeight ys j \<le> r
                     \<and> r < acc + weight y + cumWeight ys (Suc j))"
      by blast
    have shift: "cumWeight (y # ys) (Suc k) = weight y + cumWeight ys k" for k
      by (simp add: cumWeight_def)
    have "\<not> (acc + cumWeight (y # ys) j \<le> r \<and> r < acc + cumWeight (y # ys) (Suc j))"
      if "j < Suc i" for j
    proof (cases j)
      case 0
      with False show ?thesis by (simp add: cumWeight_def)
    next
      case (Suc k)
      with that have "k < i" by simp
      with i(5) Suc show ?thesis by (simp add: shift add.assoc)
    qed
    with i(1-4) show ?thesis
      by (intro exI [of _ "Suc i"]) (simp add: shift add.assoc)
  qed
qed

lemma sampleReward_specSample:
  assumes "\<forall>x\<in>set rewardsList. 0 < weight x"
  shows "sampleReward r rewardsList = specSample r rewardsList"
proof (cases "0 \<le> r")
  case True
  from walkRewards_spanEntry [OF this, of rewardsList] show ?thesis
    by (simp add: sampleReward_def specSample_def)
next
  case False
  then have neg: "r < 0" by simp
  from neg assms have none: "spanEntry 0 r rewardsList = None" by (rule spanEntry_below)
  show ?thesis
  proof (cases rewardsList)
    case Nil
    then show ?thesis by (simp add: sampleReward_def specSample_def)
  next
    case (Cons x xs)
    with assms have "0 < weight x" by simp
    with neg have "r < weight x" by simp
    with Cons none show ?thesis by (simp add: sampleReward_def specSample_def)
  qed
qed

text \<open>
  C8. For every reward list with positive weights and every draw \<open>r\<close>, the sampler agrees
  with the rule of the specification; for \<open>r\<close> in \<open>[0, totalWeight)\<close> it returns the entry
  at the least index whose cumulative weight span contains \<open>r\<close>; when no span contains
  \<open>r\<close> it returns the first entry; so for a non-empty list it always returns an element
  of the list, and a draw \<open>u\<close> of \<^verbatim>\<open>Math.random()\<close> selects the entry whose span holds
  \<open>u \<cdot> totalWeight\<close>.
\<close>

theorem sampleReward_first_span:
  assumes "\<forall>x\<in>set rewardsList. 0 < weight x"
  shows "sampleReward r rewardsList = specSample r rewardsList
       \<and> (0 \<le> r \<and> r < totalWeight rewardsList \<longrightarrow>
            (\<exists>i < length rewardsList. sampleReward r rewardsList = Some (rewardsList ! i)
               \<and> inSpan r rewardsList i \<and> (\<forall>j < i. \<not> inSpan r rewardsList j)))
       \<and> ((\<forall>i < length rewardsList. \<not> inSpan r rewardsList i) \<and> rewardsList \<noteq> [] \<longrightarrow>
            sampleReward r rewardsList = Some (hd rewardsList))
       \<and> (rewardsList \<noteq> [] \<longrightarrow> (\<exists>x\<in>set rewardsList. sampleReward r rewardsList = Some x))
       \<and> (rewardsList \<noteq> [] \<and> unit_draw u \<longrightarrow>
            (\<exists>i < length rewardsList.
               getWeightedRandomReward u rewardsList = Some (rewardsList ! i)
               \<and> inSpan (u * totalWeight rewardsList) rewardsList i))"
proof -
  note eq = sampleReward_specSample [OF assms]
  have index: "\<exists>i < length rewardsList. x = rewardsList ! i \<and> inSpan q rewardsList i
      \<and> (\<forall>j < i. \<not> inSpan q rewardsList j)"
    if "spanEntry 0 q rewardsList = Some x" for q x
    using spanEntry_index [OF that] by (simp add: inSpan_def)
  have found: "\<exists>i < length rewardsList. sampleReward q rewardsList = Some (rewardsList ! i)
      \<and> inSpan q rewardsList i \<and> (\<forall>j < i. \<not> inSpan q rewardsList j)"
    if "0 \<le> q" "q < totalWeight rewardsList" for q
  proof -
    from that have "q < 0 + sum_list (map weight rewardsList)"
      by (simp add: totalWeight_def totalWeight_sum)
    with that(1) obtain x where x: "spanEntry 0 q rewardsList = Some x"
      using spanEntry_found [of 0 q rewardsList] by auto
    with sampleReward_specSample [OF assms, of q] have "sampleReward q rewardsList = Some x"
      by (simp add: specSample_def)
    with index [OF x] show ?thesis by auto
  qed
  have fallback: "sampleReward r rewardsList = Some (hd rewardsList)"
    if none: "\<forall>i < length rewardsList. \<not> inSpan r rewardsList i" and ne: "rewardsList \<noteq> []"
  proof -
    have "spanEntry 0 r rewardsList = None"
    proof (cases "spanEntry 0 r rewardsList")
      case None
      then show ?thesis .
    next
      case (Some x)
      from index [OF this] none show ?thesis by blast
    qed
    with eq ne show ?thesis by (cases rewardsList) (simp_all add: specSample_def)
  qed
  have mem: "\<exists>x\<in>set rewardsList. sampleReward r rewardsList = Some x" if "rewardsList \<noteq> []"
  proof (cases "spanEntry 0 r rewardsList")
    case None
    with that eq show ?thesis by (cases rewardsList) (auto simp: specSample_def)
  next
    case (Some x)
    with eq spanEntry_mem [OF Some] show ?thesis by (auto simp: specSample_def)
  qed
  have draw: "\<exists>i < length rewardsList.
               getWeightedRandomReward u rewardsList = Some (rewardsList ! i)
               \<and> inSpan (u * totalWeight rewardsList) rewardsList i"
    if ne: "rewardsList \<noteq> []" and u: "unit_draw u"
  proof -
    from totalWeight_pos [OF assms ne] have pos: "0 < totalWeight rewardsList" .
    with u have "0 \<le> u * totalWeight rewardsList" "u * totalWeight rewardsList < totalWeight rewardsList"
      by (simp_all add: unit_draw_def)
    from found [OF this] show ?thesis
      by (auto simp: getWeightedRandomReward_def)
  qed
  from eq found [of r] fallback mem draw show ?thesis by blast
qed

lemma totalWeight_rewards: "totalWeight rewards = 10"
  by (simp add: totalWeight_def rewards_def)

theorem sampleReward_first_span_witness:
  "sampleReward 6.5 rewards = specSample 6.5 rewards
   \<and> (\<exists>x\<in>set rewards. sampleReward 6.5 rewards = Some x)
   \<and> map_option amount (getWeightedRandomReward 0.65 rewards) = Some (Some 1000)"
  using sampleReward_first_span [of rewards "6.5" "0.65"]
  by (simp add: rewards_def sampleReward_def specSample_def getWeightedRandomReward_def
      totalWeight_def)


subsection \<open>Crash point tiers\<close>

text \<open>
  C7. For every pair of uniform draws \<open>u\<close>, \<open>u'\<close> in \<open>[0,1)\<close> the crash point generator
  returns \<open>1.01 + u'\<cdot>0.50\<close> when \<open>u < 0.50\<close>, \<open>1.50 + u'\<cdot>1.50\<close> when \<open>0.50 \<le> u < 0.80\<close>,
  \<open>3.00 + u'\<cdot>7.00\<close> when \<open>0.80 \<le> u < 0.95\<close> and \<open>10.00 + u'\<cdot>40.00\<close> when
  \<open>0.95 \<le> u < 1.00\<close>; the result is always strictly greater than \<open>1.00\<close>.
\<close>

theorem generateCrashPoint_tiers:
  assumes "0 \<le> u" and "u < 1" and "0 \<le> u'" and "u' < 1"
  shows "(u < 0.50 \<longrightarrow> generateCrashPoint u u' = 1.01 + u' * 0.50)
       \<and> (0.50 \<le> u \<and> u < 0.80 \<longrightarrow> generateCrashPoint u u' = 1.50 + u' * 1.50)
       \<and> (0.80 \<le> u \<and> u < 0.95 \<longrightarrow> generateCrashPoint u u' = 3.00 + u' * 7.00)
       \<and> (0.95 \<le> u \<and> u < 1.00 \<longrightarrow> generateCrashPoint u u' = 10.00 + u' * 40.00)
       \<and> 1.00 < generateCrashPoint u u'"
  using assms by (auto simp: generateCrashPoint_def)

theorem generateCrashPoint_tiers_witness:
  "generateCrashPoint 0.6 0.5 = 2.25 \<and> (1.00::real) < generateCrashPoint 0.6 0.5"
  using generateCrashPoint_tiers [of "0.6" "0.5"] by simp

end
